theory Spec2Isabelle
  imports Complex_Main "HOL-Library.AList"
begin

section \<open>Ledger values\<close>

text \<open>
  The chaincode stores every record as the JSON text of a Go struct, and the bare balance
  records as decimal text. A stored value is therefore either a JSON object (its fields in
  the order of the text) or a number text. A field value is a string, a number literal, a
  boolean, an array of strings or \<open>null\<close>. A number literal is either in plain integer
  form (\<open>JInt\<close>) or carries a fraction or an exponent (\<open>JFrac\<close>); Go decodes only the
  former into an \<open>int\<close> field.
\<close>

datatype jv = JStr string | JInt int | JFrac rat | JBool bool | JArr "string list" | JNull

datatype ftext = TFin rat | TPInf | TNInf | TNaN

datatype bytes = Obj "(string \<times> jv) list" | Txt ftext

text \<open>The mock stub of the repository: \<open>State map[string][]byte\<close>, read and written in place.\<close>

type_synonym ledger = "(string \<times> bytes) list"

definition GetState :: "ledger \<Rightarrow> string \<Rightarrow> bytes option" where
  "GetState L k = map_of L k"

definition PutState :: "ledger \<Rightarrow> string \<Rightarrow> bytes \<Rightarrow> ledger" where
  "PutState L k v = AList.update k v L"

section \<open>Go numbers\<close>

text \<open>Go's \<open>int\<close> is 64 bits wide and wraps around; it is an \<open>int\<close> here with the wrap written out.\<close>

definition in_int64 :: "int \<Rightarrow> bool" where
  "in_int64 n = (- (2 ^ 63) \<le> n \<and> n < 2 ^ 63)"

definition wrap64 :: "int \<Rightarrow> int" where
  "wrap64 n = (n + 2 ^ 63) mod 2 ^ 64 - 2 ^ 63"

text \<open>
  A \<open>float64\<close> is a finite binary fraction, an infinity or NaN (the sign of zero is not
  kept: no operation of the chaincode tells the two zeros apart but the text of a written
  balance). \<open>round_f64\<close> rounds an exact value to the nearest \<open>float64\<close>, ties to even,
  with 53 bits of precision, subnormals below \<open>2^-1022\<close> and overflow to infinity.
\<close>

datatype float64 = Fin rat | PInf | NInf | NaN

definition pow2 :: "int \<Rightarrow> rat" where
  "pow2 e = (if 0 \<le> e then 2 ^ nat e else 1 / 2 ^ nat (- e))"

definition round_even :: "rat \<Rightarrow> int" where
  "round_even q =
     (let f = \<lfloor>q\<rfloor>; d = q - of_int f
      in if d < 1 / 2 then f else if 1 / 2 < d then f + 1 else if even f then f else f + 1)"

text \<open>The number of binary digits of a positive integer.\<close>

function bitlen :: "int \<Rightarrow> int" where
  "bitlen n = (if n \<le> 0 then 0 else 1 + bitlen (n div 2))"
  by pat_completeness auto
termination
  by (relation "measure nat") auto

declare bitlen.simps [simp del]

text \<open>
  The binary exponent \<open>e\<close> of a positive value \<open>a\<close>, that is \<open>2^e \<le> a < 2^(e+1)\<close>: from
  the digits of \<open>\<lfloor>a\<rfloor>\<close> when \<open>1 \<le> a\<close>, and from those of \<open>\<lfloor>1/a\<rfloor>\<close> otherwise.
\<close>

definition exponent2 :: "rat \<Rightarrow> int" where
  "exponent2 a =
     (if 1 \<le> a then bitlen \<lfloor>a\<rfloor> - 1
      else let k = bitlen \<lfloor>1 / a\<rfloor> - 1 in if pow2 (- k) \<le> a then - k else - k - 1)"

definition round_f64 :: "rat \<Rightarrow> float64" where
  "round_f64 q =
     (if q = 0 then Fin 0
      else
        let a = \<bar>q\<bar>;
            ulp = pow2 (max (exponent2 a) (- 1022) - 52);
            r = of_int (round_even (a / ulp)) * ulp
        in if pow2 1024 \<le> r then (if 0 < q then PInf else NInf)
           else Fin (if 0 < q then r else - r))"

text \<open>\<open>strconv.ParseFloat(s, 64)\<close>: the nearest \<open>float64\<close>; a value out of range is an error.\<close>

definition ParseFloat :: "ftext \<Rightarrow> float64 option" where
  "ParseFloat t =
     (case t of
        TFin q \<Rightarrow> (case round_f64 q of Fin r \<Rightarrow> Some (Fin r) | _ \<Rightarrow> None)
      | TPInf \<Rightarrow> Some PInf
      | TNInf \<Rightarrow> Some NInf
      | TNaN \<Rightarrow> Some NaN)"

text \<open>\<open>fmt.Sprintf("%f", x)\<close>: six digits after the point, correctly rounded.\<close>

definition Sprintf_f :: "float64 \<Rightarrow> ftext" where
  "Sprintf_f x =
     (case x of
        Fin q \<Rightarrow> TFin (of_int (round_even (q * 1000000)) / 1000000)
      | PInf \<Rightarrow> TPInf
      | NInf \<Rightarrow> TNInf
      | NaN \<Rightarrow> TNaN)"

text \<open>The comparison \<open>x < y\<close> and the subtraction \<open>x - y\<close> of IEEE 754.\<close>

fun float_less :: "float64 \<Rightarrow> float64 \<Rightarrow> bool" where
  "float_less NaN _ = False"
| "float_less _ NaN = False"
| "float_less (Fin a) (Fin b) = (a < b)"
| "float_less (Fin a) PInf = True"
| "float_less (Fin a) NInf = False"
| "float_less NInf NInf = False"
| "float_less NInf _ = True"
| "float_less PInf _ = False"

fun float_sub :: "float64 \<Rightarrow> float64 \<Rightarrow> float64" where
  "float_sub (Fin a) (Fin b) = round_f64 (a - b)"
| "float_sub NaN _ = NaN"
| "float_sub _ NaN = NaN"
| "float_sub PInf PInf = NaN"
| "float_sub NInf NInf = NaN"
| "float_sub PInf _ = PInf"
| "float_sub NInf _ = NInf"
| "float_sub (Fin a) PInf = NInf"
| "float_sub (Fin a) NInf = PInf"

text \<open>
  The conversion \<open>int(x)\<close> of a finite \<open>float64\<close> truncates toward zero. Go leaves
  the result open when the truncated value does not fit; the amd64 result is taken here.
\<close>

definition trunc0 :: "rat \<Rightarrow> int" where
  "trunc0 q = (if 0 \<le> q then \<lfloor>q\<rfloor> else - \<lfloor>- q\<rfloor>)"

definition float_to_int :: "float64 \<Rightarrow> int" where
  "float_to_int x =
     (case x of
        Fin q \<Rightarrow> (if in_int64 (trunc0 q) then trunc0 q else - (2 ^ 63))
      | _ \<Rightarrow> - (2 ^ 63))"

section \<open>JSON decoding and encoding of the records\<close>

text \<open>
  \<open>json.Unmarshal\<close> into a fresh struct: a key the struct does not declare is skipped, a
  missing key or \<open>null\<close> leaves the zero value, and a value of the wrong type leaves the
  zero value, goes on with the other fields and reports an error at the end. Of a repeated
  key the last one counts. Every decoder returns the struct and whether no error occurred.
  Keys are compared exactly.
\<close>

definition field :: "(string \<times> jv) list \<Rightarrow> string \<Rightarrow> jv option" where
  "field fs k = map_of (rev fs) k"

fun dec_str :: "jv option \<Rightarrow> string \<times> bool" where
  "dec_str None = ([], True)"
| "dec_str (Some (JStr s)) = (s, True)"
| "dec_str (Some JNull) = ([], True)"
| "dec_str (Some _) = ([], False)"

fun dec_bool :: "jv option \<Rightarrow> bool \<times> bool" where
  "dec_bool None = (False, True)"
| "dec_bool (Some (JBool b)) = (b, True)"
| "dec_bool (Some JNull) = (False, True)"
| "dec_bool (Some _) = (False, False)"

fun dec_int :: "jv option \<Rightarrow> int \<times> bool" where
  "dec_int None = (0, True)"
| "dec_int (Some (JInt n)) = (if in_int64 n then (n, True) else (0, False))"
| "dec_int (Some JNull) = (0, True)"
| "dec_int (Some _) = (0, False)"

fun dec_float :: "jv option \<Rightarrow> float64 \<times> bool" where
  "dec_float None = (Fin 0, True)"
| "dec_float (Some (JInt n)) =
     (case round_f64 (of_int n) of Fin r \<Rightarrow> (Fin r, True) | _ \<Rightarrow> (Fin 0, False))"
| "dec_float (Some (JFrac q)) =
     (case round_f64 q of Fin r \<Rightarrow> (Fin r, True) | _ \<Rightarrow> (Fin 0, False))"
| "dec_float (Some JNull) = (Fin 0, True)"
| "dec_float (Some _) = (Fin 0, False)"

text \<open>A \<open>[]string\<close> is \<open>nil\<close> (\<open>None\<close>, written \<open>null\<close>) or a list.\<close>

fun dec_strs :: "jv option \<Rightarrow> string list option \<times> bool" where
  "dec_strs None = (None, True)"
| "dec_strs (Some (JArr xs)) = (Some xs, True)"
| "dec_strs (Some JNull) = (None, True)"
| "dec_strs (Some _) = (None, False)"

definition enc_strs :: "string list option \<Rightarrow> jv" where
  "enc_strs x = (case x of None \<Rightarrow> JNull | Some xs \<Rightarrow> JArr xs)"

text \<open>
  A \<open>float64\<close> is written in plain form when its magnitude is below \<open>1e21\<close> (so a whole
  number is an integer literal) and with an exponent otherwise; the literal is taken at
  the exact value of the float, which reads back as the same float. NaN and the
  infinities cannot be written: \<open>json.Marshal\<close> fails.
\<close>

definition enc_float :: "float64 \<Rightarrow> jv option" where
  "enc_float x =
     (case x of
        Fin q \<Rightarrow>
          Some (if q = of_int \<lfloor>q\<rfloor> \<and> \<bar>q\<bar> < 1000000000000000000000 then JInt \<lfloor>q\<rfloor> else JFrac q)
      | _ \<Rightarrow> None)"

subsection \<open>The structs\<close>

record Participant =
  P_Name :: string
  P_NetworkAddress :: string
  P_ClientID :: string
  P_Approved :: bool
  P_PasswordHash :: string
  P_Country :: string
  P_TokenID :: string
  P_TransferIDs :: "string list option"

record Token =
  T_TokenID :: string
  T_Owner :: string
  T_Available :: bool
  T_Minted :: int
  T_TransferIDs :: "string list option"

record TokenRequest =
  TR_RequestID :: string
  TR_NetworkAddr :: string
  TR_Status :: string
  TR_TokenID :: string

record MintRequest =
  MR_RequestID :: string
  MR_TokenID :: string
  MR_RequestedBy :: string
  MR_Amount :: int
  MR_Approved :: bool

record Customer =
  C_NetworkAddress :: string
  C_Name :: string
  C_PasswordHash :: string
  C_TokenID :: string
  C_Approved :: bool
  C_Balance :: int
  C_TransferIDs :: "string list option"
  C_TokenTransferIDs :: "string list option"

record RegisterCustomerRequest =
  RC_RequestID :: string
  RC_NetworkAddress :: string
  RC_Name :: string
  RC_PasswordHash :: string
  RC_TokenID :: string
  RC_Approved :: bool

record TransferRequest =
  X_TransferRequestID :: string
  X_TokenID :: string
  X_Amount :: float64
  X_SenderTransferID :: string
  X_ReceiverTransferID :: string
  X_SenderTokenTransferID :: string
  X_ReceiverTokenTransferID :: string
  X_Status :: string

subsection \<open>\<open>json.Marshal\<close>\<close>

definition marshalParticipant :: "Participant \<Rightarrow> bytes" where
  "marshalParticipant p =
     Obj [(''name'', JStr (P_Name p)), (''network_address'', JStr (P_NetworkAddress p)),
          (''client_id'', JStr (P_ClientID p)), (''approved'', JBool (P_Approved p)),
          (''password_hash'', JStr (P_PasswordHash p)), (''country'', JStr (P_Country p)),
          (''token_id'', JStr (P_TokenID p)), (''transfer_ids'', enc_strs (P_TransferIDs p))]"

definition marshalToken :: "Token \<Rightarrow> bytes" where
  "marshalToken t =
     Obj [(''token_id'', JStr (T_TokenID t)), (''owner'', JStr (T_Owner t)),
          (''available'', JBool (T_Available t)), (''minted'', JInt (T_Minted t)),
          (''transfer_ids'', enc_strs (T_TransferIDs t))]"

definition marshalTokenRequest :: "TokenRequest \<Rightarrow> bytes" where
  "marshalTokenRequest r =
     Obj [(''request_id'', JStr (TR_RequestID r)), (''network_addr'', JStr (TR_NetworkAddr r)),
          (''status'', JStr (TR_Status r)), (''token_id'', JStr (TR_TokenID r))]"

definition marshalMintRequest :: "MintRequest \<Rightarrow> bytes" where
  "marshalMintRequest r =
     Obj [(''request_id'', JStr (MR_RequestID r)), (''token_id'', JStr (MR_TokenID r)),
          (''requested_by'', JStr (MR_RequestedBy r)), (''amount'', JInt (MR_Amount r)),
          (''approved'', JBool (MR_Approved r))]"

definition marshalCustomer :: "Customer \<Rightarrow> bytes" where
  "marshalCustomer c =
     Obj [(''network_address'', JStr (C_NetworkAddress c)), (''name'', JStr (C_Name c)),
          (''password_hash'', JStr (C_PasswordHash c)), (''token_id'', JStr (C_TokenID c)),
          (''approved'', JBool (C_Approved c)), (''balance'', JInt (C_Balance c)),
          (''transfer_ids'', enc_strs (C_TransferIDs c)),
          (''token_transfer_ids'', enc_strs (C_TokenTransferIDs c))]"

definition marshalRegisterCustomerRequest :: "RegisterCustomerRequest \<Rightarrow> bytes" where
  "marshalRegisterCustomerRequest r =
     Obj [(''request_id'', JStr (RC_RequestID r)), (''network_address'', JStr (RC_NetworkAddress r)),
          (''name'', JStr (RC_Name r)), (''password_hash'', JStr (RC_PasswordHash r)),
          (''token_id'', JStr (RC_TokenID r)), (''approved'', JBool (RC_Approved r))]"

text \<open>Only a transfer request holds a \<open>float64\<close>, so only its encoding can fail.\<close>

definition marshalTransferRequest :: "TransferRequest \<Rightarrow> bytes option" where
  "marshalTransferRequest r =
     (case enc_float (X_Amount r) of
        None \<Rightarrow> None
      | Some a \<Rightarrow>
          Some (Obj [(''transfer_request_id'', JStr (X_TransferRequestID r)),
                     (''token_id'', JStr (X_TokenID r)), (''amount'', a),
                     (''sender_transfer_id'', JStr (X_SenderTransferID r)),
                     (''receiver_transfer_id'', JStr (X_ReceiverTransferID r)),
                     (''sender_token_transfer_id'', JStr (X_SenderTokenTransferID r)),
                     (''receiver_token_transfer_id'', JStr (X_ReceiverTokenTransferID r)),
                     (''status'', JStr (X_Status r))]))"

subsection \<open>\<open>json.Unmarshal\<close>\<close>

definition unmarshalParticipant :: "bytes \<Rightarrow> Participant \<times> bool" where
  "unmarshalParticipant b =
     (case b of
        Txt _ \<Rightarrow>
          (\<lparr>P_Name = [], P_NetworkAddress = [], P_ClientID = [], P_Approved = False,
            P_PasswordHash = [], P_Country = [], P_TokenID = [], P_TransferIDs = None\<rparr>, False)
      | Obj fs \<Rightarrow>
          (\<lparr>P_Name = fst (dec_str (field fs ''name'')),
            P_NetworkAddress = fst (dec_str (field fs ''network_address'')),
            P_ClientID = fst (dec_str (field fs ''client_id'')),
            P_Approved = fst (dec_bool (field fs ''approved'')),
            P_PasswordHash = fst (dec_str (field fs ''password_hash'')),
            P_Country = fst (dec_str (field fs ''country'')),
            P_TokenID = fst (dec_str (field fs ''token_id'')),
            P_TransferIDs = fst (dec_strs (field fs ''transfer_ids''))\<rparr>,
           snd (dec_str (field fs ''name'')) \<and> snd (dec_str (field fs ''network_address'')) \<and>
           snd (dec_str (field fs ''client_id'')) \<and> snd (dec_bool (field fs ''approved'')) \<and>
           snd (dec_str (field fs ''password_hash'')) \<and> snd (dec_str (field fs ''country'')) \<and>
           snd (dec_str (field fs ''token_id'')) \<and> snd (dec_strs (field fs ''transfer_ids''))))"

definition unmarshalToken :: "bytes \<Rightarrow> Token \<times> bool" where
  "unmarshalToken b =
     (case b of
        Txt _ \<Rightarrow>
          (\<lparr>T_TokenID = [], T_Owner = [], T_Available = False, T_Minted = 0,
            T_TransferIDs = None\<rparr>, False)
      | Obj fs \<Rightarrow>
          (\<lparr>T_TokenID = fst (dec_str (field fs ''token_id'')),
            T_Owner = fst (dec_str (field fs ''owner'')),
            T_Available = fst (dec_bool (field fs ''available'')),
            T_Minted = fst (dec_int (field fs ''minted'')),
            T_TransferIDs = fst (dec_strs (field fs ''transfer_ids''))\<rparr>,
           snd (dec_str (field fs ''token_id'')) \<and> snd (dec_str (field fs ''owner'')) \<and>
           snd (dec_bool (field fs ''available'')) \<and> snd (dec_int (field fs ''minted'')) \<and>
           snd (dec_strs (field fs ''transfer_ids''))))"

definition unmarshalTokenRequest :: "bytes \<Rightarrow> TokenRequest \<times> bool" where
  "unmarshalTokenRequest b =
     (case b of
        Txt _ \<Rightarrow>
          (\<lparr>TR_RequestID = [], TR_NetworkAddr = [], TR_Status = [], TR_TokenID = []\<rparr>, False)
      | Obj fs \<Rightarrow>
          (\<lparr>TR_RequestID = fst (dec_str (field fs ''request_id'')),
            TR_NetworkAddr = fst (dec_str (field fs ''network_addr'')),
            TR_Status = fst (dec_str (field fs ''status'')),
            TR_TokenID = fst (dec_str (field fs ''token_id''))\<rparr>,
           snd (dec_str (field fs ''request_id'')) \<and> snd (dec_str (field fs ''network_addr'')) \<and>
           snd (dec_str (field fs ''status'')) \<and> snd (dec_str (field fs ''token_id''))))"

definition unmarshalMintRequest :: "bytes \<Rightarrow> MintRequest \<times> bool" where
  "unmarshalMintRequest b =
     (case b of
        Txt _ \<Rightarrow>
          (\<lparr>MR_RequestID = [], MR_TokenID = [], MR_RequestedBy = [], MR_Amount = 0,
            MR_Approved = False\<rparr>, False)
      | Obj fs \<Rightarrow>
          (\<lparr>MR_RequestID = fst (dec_str (field fs ''request_id'')),
            MR_TokenID = fst (dec_str (field fs ''token_id'')),
            MR_RequestedBy = fst (dec_str (field fs ''requested_by'')),
            MR_Amount = fst (dec_int (field fs ''amount'')),
            MR_Approved = fst (dec_bool (field fs ''approved''))\<rparr>,
           snd (dec_str (field fs ''request_id'')) \<and> snd (dec_str (field fs ''token_id'')) \<and>
           snd (dec_str (field fs ''requested_by'')) \<and> snd (dec_int (field fs ''amount'')) \<and>
           snd (dec_bool (field fs ''approved''))))"

definition unmarshalCustomer :: "bytes \<Rightarrow> Customer \<times> bool" where
  "unmarshalCustomer b =
     (case b of
        Txt _ \<Rightarrow>
          (\<lparr>C_NetworkAddress = [], C_Name = [], C_PasswordHash = [], C_TokenID = [],
            C_Approved = False, C_Balance = 0, C_TransferIDs = None,
            C_TokenTransferIDs = None\<rparr>, False)
      | Obj fs \<Rightarrow>
          (\<lparr>C_NetworkAddress = fst (dec_str (field fs ''network_address'')),
            C_Name = fst (dec_str (field fs ''name'')),
            C_PasswordHash = fst (dec_str (field fs ''password_hash'')),
            C_TokenID = fst (dec_str (field fs ''token_id'')),
            C_Approved = fst (dec_bool (field fs ''approved'')),
            C_Balance = fst (dec_int (field fs ''balance'')),
            C_TransferIDs = fst (dec_strs (field fs ''transfer_ids'')),
            C_TokenTransferIDs = fst (dec_strs (field fs ''token_transfer_ids''))\<rparr>,
           snd (dec_str (field fs ''network_address'')) \<and> snd (dec_str (field fs ''name'')) \<and>
           snd (dec_str (field fs ''password_hash'')) \<and> snd (dec_str (field fs ''token_id'')) \<and>
           snd (dec_bool (field fs ''approved'')) \<and> snd (dec_int (field fs ''balance'')) \<and>
           snd (dec_strs (field fs ''transfer_ids'')) \<and>
           snd (dec_strs (field fs ''token_transfer_ids''))))"

definition unmarshalRegisterCustomerRequest :: "bytes \<Rightarrow> RegisterCustomerRequest \<times> bool" where
  "unmarshalRegisterCustomerRequest b =
     (case b of
        Txt _ \<Rightarrow>
          (\<lparr>RC_RequestID = [], RC_NetworkAddress = [], RC_Name = [], RC_PasswordHash = [],
            RC_TokenID = [], RC_Approved = False\<rparr>, False)
      | Obj fs \<Rightarrow>
          (\<lparr>RC_RequestID = fst (dec_str (field fs ''request_id'')),
            RC_NetworkAddress = fst (dec_str (field fs ''network_address'')),
            RC_Name = fst (dec_str (field fs ''name'')),
            RC_PasswordHash = fst (dec_str (field fs ''password_hash'')),
            RC_TokenID = fst (dec_str (field fs ''token_id'')),
            RC_Approved = fst (dec_bool (field fs ''approved''))\<rparr>,
           snd (dec_str (field fs ''request_id'')) \<and> snd (dec_str (field fs ''network_address'')) \<and>
           snd (dec_str (field fs ''name'')) \<and> snd (dec_str (field fs ''password_hash'')) \<and>
           snd (dec_str (field fs ''token_id'')) \<and> snd (dec_bool (field fs ''approved''))))"

definition unmarshalTransferRequest :: "bytes \<Rightarrow> TransferRequest \<times> bool" where
  "unmarshalTransferRequest b =
     (case b of
        Txt _ \<Rightarrow>
          (\<lparr>X_TransferRequestID = [], X_TokenID = [], X_Amount = Fin 0, X_SenderTransferID = [],
            X_ReceiverTransferID = [], X_SenderTokenTransferID = [],
            X_ReceiverTokenTransferID = [], X_Status = []\<rparr>, False)
      | Obj fs \<Rightarrow>
          (\<lparr>X_TransferRequestID = fst (dec_str (field fs ''transfer_request_id'')),
            X_TokenID = fst (dec_str (field fs ''token_id'')),
            X_Amount = fst (dec_float (field fs ''amount'')),
            X_SenderTransferID = fst (dec_str (field fs ''sender_transfer_id'')),
            X_ReceiverTransferID = fst (dec_str (field fs ''receiver_transfer_id'')),
            X_SenderTokenTransferID = fst (dec_str (field fs ''sender_token_transfer_id'')),
            X_ReceiverTokenTransferID = fst (dec_str (field fs ''receiver_token_transfer_id'')),
            X_Status = fst (dec_str (field fs ''status''))\<rparr>,
           snd (dec_str (field fs ''transfer_request_id'')) \<and> snd (dec_str (field fs ''token_id'')) \<and>
           snd (dec_float (field fs ''amount'')) \<and> snd (dec_str (field fs ''sender_transfer_id'')) \<and>
           snd (dec_str (field fs ''receiver_transfer_id'')) \<and>
           snd (dec_str (field fs ''sender_token_transfer_id'')) \<and>
           snd (dec_str (field fs ''receiver_token_transfer_id'')) \<and>
           snd (dec_str (field fs ''status''))))"

section \<open>The contract\<close>

text \<open>
  Every failure of the chaincode is an error value; one constructor per message.
  \<open>JsonError\<close> stands for an error of \<open>json.Unmarshal\<close> or \<open>json.Marshal\<close> that an
  operation returns as it is.
\<close>

datatype error =
    JsonError
  | ParticipantAlreadyExists
  | AccessDeniedAdminOnly
  | ParticipantNotFound
  | ParticipantDetailsDoNotMatch
  | InvalidPincode
  | TokenRequestNotFound
  | RequestAlreadyProcessed
  | NoTokensAvailable
  | TokenNotFound
  | InvalidPassword
  | UnauthorizedCaller
  | CallerIsNotTokenOwner
  | MintRequestNotFound
  | MintRequestAlreadyApproved
  | InvalidOrUnownedToken
  | CustomerRegistrationRequestAlreadyExists
  | CustomerRegistrationRequestNotFound
  | AlreadyApproved
  | CustomerNotRegistered
  | InsufficientMintedCoinBalance int int
  | CustomerNotFound
  | InvalidAmount
  | TransferRequestNotFound
  | NotPendingOwnerApproval
  | ApproverIsNotSender
  | NotPendingReceiverApproval
  | ApproverIsNotTokenOwner
  | SenderBalanceNotFound
  | InvalidSenderBalance
  | AccessDeniedNotTokenOwner
  | InsufficientFundsForTransfer

text \<open>The caller context: the identity and the organisation of the caller.\<close>

record ctx =
  GetID :: string
  GetMSPID :: string

definition maxTokens :: nat where
  "maxTokens = 25"

text \<open>\<open>fmt.Sprintf("token_%d", i)\<close> for the loop counter, which is never negative.\<close>

fun show_nat :: "nat \<Rightarrow> string" where
  "show_nat n =
     (if n < 10 then [''0123456789'' ! n]
      else show_nat (n div 10) @ [''0123456789'' ! (n mod 10)])"

declare show_nat.simps [simp del]

definition tid :: "nat \<Rightarrow> string" where
  "tid i = ''token_'' @ show_nat i"

definition InitLedger :: "ledger \<Rightarrow> error option \<times> ledger" where
  "InitLedger L =
     (None,
      fold (\<lambda>i L'. PutState L' (tid i)
              (marshalToken \<lparr>T_TokenID = tid i, T_Owner = [], T_Available = True, T_Minted = 0,
                             T_TransferIDs = None\<rparr>))
        [1..<Suc maxTokens] L)"

definition ParticipantExists :: "ledger \<Rightarrow> string \<Rightarrow> bool" where
  "ParticipantExists L networkAddress = (GetState L networkAddress \<noteq> None)"

text \<open>
  The address is the hexadecimal SHA-256 digest of the name; the digest function is the
  parameter \<open>sha\<close>. The operation returns the address beside the error.
\<close>

definition SubmitRegistration ::
  "(string \<Rightarrow> string) \<Rightarrow> ctx \<Rightarrow> ledger \<Rightarrow> string \<Rightarrow> string \<Rightarrow> string \<Rightarrow> (string \<times> error option) \<times> ledger" where
  "SubmitRegistration sha c L name passwordHash country =
     (let netAddr = sha name in
      if ParticipantExists L netAddr then (([], Some ParticipantAlreadyExists), L)
      else
        ((netAddr, None),
         PutState L netAddr
           (marshalParticipant
              \<lparr>P_Name = name, P_NetworkAddress = netAddr, P_ClientID = GetID c, P_Approved = False,
               P_PasswordHash = passwordHash, P_Country = country, P_TokenID = [],
               P_TransferIDs = None\<rparr>)))"

definition VerifyAdmin :: "ctx \<Rightarrow> error option" where
  "VerifyAdmin c = (if GetMSPID c \<noteq> ''Org1MSP'' then Some AccessDeniedAdminOnly else None)"

definition RequestTokenRequest ::
  "ledger \<Rightarrow> string \<Rightarrow> string \<Rightarrow> string \<Rightarrow> string \<Rightarrow> error option \<times> ledger" where
  "RequestTokenRequest L name networkAddress passwordHash country =
     (case GetState L networkAddress of
        None \<Rightarrow> (Some ParticipantNotFound, L)
      | Some b \<Rightarrow>
          (case unmarshalParticipant b of
             (p, ok) \<Rightarrow>
               if \<not> ok then (Some JsonError, L)
               else if P_Name p \<noteq> name \<or> P_PasswordHash p \<noteq> passwordHash \<or> P_Country p \<noteq> country
               then (Some ParticipantDetailsDoNotMatch, L)
               else
                 let reqID = ''tokenrequest_'' @ networkAddress in
                 (None,
                  PutState L reqID
                    (marshalTokenRequest
                       \<lparr>TR_RequestID = reqID, TR_NetworkAddr = networkAddress,
                        TR_Status = ''PENDING'', TR_TokenID = []\<rparr>))))"

text \<open>
  The loop of \<open>findAvailableToken\<close> over the counters still to visit: a missing token
  is skipped, a token that does not decode ends the search with the error.
\<close>

fun findAvailableToken_from :: "ledger \<Rightarrow> nat list \<Rightarrow> error + string" where
  "findAvailableToken_from L [] = Inr []"
| "findAvailableToken_from L (i # is) =
     (case GetState L (tid i) of
        None \<Rightarrow> findAvailableToken_from L is
      | Some b \<Rightarrow>
          (case unmarshalToken b of
             (t, ok) \<Rightarrow>
               if \<not> ok then Inl JsonError
               else if T_Available t then Inr (tid i)
               else findAvailableToken_from L is))"

definition findAvailableToken :: "ledger \<Rightarrow> error + string" where
  "findAvailableToken L = findAvailableToken_from L [1..<Suc maxTokens]"

text \<open>
  \<open>ApproveTokenRequest\<close> ignores the errors of its three \<open>json.Unmarshal\<close> calls and
  writes the request, the participant and the token one after the other.
\<close>

definition ApproveTokenRequest :: "ctx \<Rightarrow> ledger \<Rightarrow> string \<Rightarrow> error option \<times> ledger" where
  "ApproveTokenRequest c L networkAddress =
     (case VerifyAdmin c of
        Some e \<Rightarrow> (Some e, L)
      | None \<Rightarrow>
          let reqID = ''tokenrequest_'' @ networkAddress in
          (case GetState L reqID of
             None \<Rightarrow> (Some TokenRequestNotFound, L)
           | Some rb \<Rightarrow>
               let r = fst (unmarshalTokenRequest rb) in
               if TR_Status r \<noteq> ''PENDING'' then (Some RequestAlreadyProcessed, L)
               else
                 (case findAvailableToken L of
                    Inl e \<Rightarrow> (Some e, L)
                  | Inr tokenID \<Rightarrow>
                      if tokenID = [] then (Some NoTokensAvailable, L)
                      else
                        let L1 = PutState L reqID
                                   (marshalTokenRequest (r\<lparr>TR_Status := ''APPROVED'', TR_TokenID := tokenID\<rparr>))
                        in
                        (case GetState L1 networkAddress of
                           None \<Rightarrow> (Some ParticipantNotFound, L1)
                         | Some pb \<Rightarrow>
                             let p = fst (unmarshalParticipant pb);
                                 L2 = PutState L1 networkAddress
                                        (marshalParticipant (p\<lparr>P_TokenID := tokenID, P_Approved := True\<rparr>))
                             in
                             (case GetState L2 tokenID of
                                None \<Rightarrow> (Some TokenNotFound, L2)
                              | Some tb \<Rightarrow>
                                  let t = fst (unmarshalToken tb) in
                                  (None,
                                   PutState L2 tokenID
                                     (marshalToken (t\<lparr>T_Owner := networkAddress, T_Available := False\<rparr>))))))))"

subsection \<open>The variant of the token request that takes a pincode\<close>

text \<open>
  The second version of the chaincode in the repository declares \<open>TokenRequest\<close> with a
  fifth field \<open>Pincode\<close> and \<open>RequestTokenRequest\<close> with a sixth argument. Its
  \<open>Participant\<close> has no \<open>transfer_ids\<close>; a key the struct does not declare is skipped.
\<close>

record TokenRequestPin =
  TRP_RequestID :: string
  TRP_NetworkAddr :: string
  TRP_Status :: string
  TRP_TokenID :: string
  TRP_Pincode :: string

definition marshalTokenRequestPin :: "TokenRequestPin \<Rightarrow> bytes" where
  "marshalTokenRequestPin r =
     Obj [(''request_id'', JStr (TRP_RequestID r)), (''network_addr'', JStr (TRP_NetworkAddr r)),
          (''status'', JStr (TRP_Status r)), (''token_id'', JStr (TRP_TokenID r)),
          (''pincode'', JStr (TRP_Pincode r))]"

definition unmarshalTokenRequestPin :: "bytes \<Rightarrow> TokenRequestPin \<times> bool" where
  "unmarshalTokenRequestPin b =
     (case b of
        Txt _ \<Rightarrow>
          (\<lparr>TRP_RequestID = [], TRP_NetworkAddr = [], TRP_Status = [], TRP_TokenID = [],
            TRP_Pincode = []\<rparr>, False)
      | Obj fs \<Rightarrow>
          (\<lparr>TRP_RequestID = fst (dec_str (field fs ''request_id'')),
            TRP_NetworkAddr = fst (dec_str (field fs ''network_addr'')),
            TRP_Status = fst (dec_str (field fs ''status'')),
            TRP_TokenID = fst (dec_str (field fs ''token_id'')),
            TRP_Pincode = fst (dec_str (field fs ''pincode''))\<rparr>,
           snd (dec_str (field fs ''request_id'')) \<and> snd (dec_str (field fs ''network_addr'')) \<and>
           snd (dec_str (field fs ''status'')) \<and> snd (dec_str (field fs ''token_id'')) \<and>
           snd (dec_str (field fs ''pincode''))))"

text \<open>The participant as the second version declares it: seven fields.\<close>

definition unmarshalParticipant7 :: "bytes \<Rightarrow> Participant \<times> bool" where
  "unmarshalParticipant7 b =
     (case b of
        Txt _ \<Rightarrow> unmarshalParticipant b
      | Obj fs \<Rightarrow> unmarshalParticipant (Obj (filter (\<lambda>kv. fst kv \<noteq> ''transfer_ids'') fs)))"

definition RequestTokenRequestPin ::
  "ledger \<Rightarrow> string \<Rightarrow> string \<Rightarrow> string \<Rightarrow> string \<Rightarrow> string \<Rightarrow> error option \<times> ledger" where
  "RequestTokenRequestPin L name networkAddress passwordHash country pincode =
     (case GetState L networkAddress of
        None \<Rightarrow> (Some ParticipantNotFound, L)
      | Some b \<Rightarrow>
          (case unmarshalParticipant7 b of
             (p, ok) \<Rightarrow>
               if \<not> ok then (Some JsonError, L)
               else if P_Name p \<noteq> name \<or> P_PasswordHash p \<noteq> passwordHash \<or> P_Country p \<noteq> country
               then (Some ParticipantDetailsDoNotMatch, L)
               else if length pincode \<noteq> 6 then (Some InvalidPincode, L)
               else
                 let reqID = ''tokenrequest_'' @ networkAddress in
                 (None,
                  PutState L reqID
                    (marshalTokenRequestPin
                       \<lparr>TRP_RequestID = reqID, TRP_NetworkAddr = networkAddress,
                        TRP_Status = ''PENDING'', TRP_TokenID = [], TRP_Pincode = pincode\<rparr>))))"

subsection \<open>Mint issuance\<close>

text \<open>The amount is a Go \<open>int\<close>: a caller passes a value of 64 bits.\<close>

definition RequestMintCoins :: "ctx \<Rightarrow> ledger \<Rightarrow> string \<Rightarrow> string \<Rightarrow> int \<Rightarrow> error option \<times> ledger" where
  "RequestMintCoins c L networkAddress passwordHash amount =
     (case GetState L networkAddress of
        None \<Rightarrow> (Some ParticipantNotFound, L)
      | Some partBytes \<Rightarrow>
          (case unmarshalParticipant partBytes of
             (participant, ok) \<Rightarrow>
               if \<not> ok then (Some JsonError, L)
               else if P_PasswordHash participant \<noteq> passwordHash then (Some InvalidPassword, L)
               else if P_ClientID participant \<noteq> GetID c then (Some UnauthorizedCaller, L)
               else
                 (case GetState L (P_TokenID participant) of
                    None \<Rightarrow> (Some TokenNotFound, L)
                  | Some tokenBytes \<Rightarrow>
                      (case unmarshalToken tokenBytes of
                         (token, ok') \<Rightarrow>
                           if \<not> ok' then (Some JsonError, L)
                           else if T_Owner token \<noteq> networkAddress then (Some CallerIsNotTokenOwner, L)
                           else
                             let reqKey = ''mintrequest_'' @ P_TokenID participant @ ''_'' @ networkAddress in
                             (None,
                              PutState L reqKey
                                (marshalMintRequest
                                   \<lparr>MR_RequestID = reqKey, MR_TokenID = P_TokenID participant,
                                    MR_RequestedBy = networkAddress, MR_Amount = amount,
                                    MR_Approved = False\<rparr>))))))"

definition ApproveMintRequest :: "ctx \<Rightarrow> ledger \<Rightarrow> string \<Rightarrow> error option \<times> ledger" where
  "ApproveMintRequest c L requestID =
     (case VerifyAdmin c of
        Some e \<Rightarrow> (Some e, L)
      | None \<Rightarrow>
          (case GetState L requestID of
             None \<Rightarrow> (Some MintRequestNotFound, L)
           | Some reqBytes \<Rightarrow>
               (case unmarshalMintRequest reqBytes of
                  (mr, ok) \<Rightarrow>
                    if \<not> ok then (Some JsonError, L)
                    else if MR_Approved mr then (Some MintRequestAlreadyApproved, L)
                    else
                      let L1 = PutState L requestID (marshalMintRequest (mr\<lparr>MR_Approved := True\<rparr>)) in
                      (case GetState L1 (MR_TokenID mr) of
                         None \<Rightarrow> (Some TokenNotFound, L1)
                       | Some tokenBytes \<Rightarrow>
                           (case unmarshalToken tokenBytes of
                              (token, ok') \<Rightarrow>
                                if \<not> ok' then (Some JsonError, L1)
                                else
                                  (None,
                                   PutState L1 (MR_TokenID mr)
                                     (marshalToken
                                        (token\<lparr>T_Minted := wrap64 (T_Minted token + MR_Amount mr)\<rparr>))))))))"

subsection \<open>Customer sub-accounts\<close>

definition RegisterCustomer ::
  "ledger \<Rightarrow> string \<Rightarrow> string \<Rightarrow> string \<Rightarrow> string \<Rightarrow> error option \<times> ledger" where
  "RegisterCustomer L networkAddress name passwordHash tokenID =
     (case GetState L tokenID of
        None \<Rightarrow> (Some TokenNotFound, L)
      | Some tokenBytes \<Rightarrow>
          (case unmarshalToken tokenBytes of
             (token, ok) \<Rightarrow>
               if \<not> ok \<or> T_Owner token = [] then (Some InvalidOrUnownedToken, L)
               else
                 let reqID = ''custreq_'' @ networkAddress @ ''_'' @ tokenID in
                 if GetState L reqID \<noteq> None then (Some CustomerRegistrationRequestAlreadyExists, L)
                 else
                   (None,
                    PutState L reqID
                      (marshalRegisterCustomerRequest
                         \<lparr>RC_RequestID = reqID, RC_NetworkAddress = networkAddress, RC_Name = name,
                          RC_PasswordHash = passwordHash, RC_TokenID = tokenID,
                          RC_Approved = False\<rparr>))))"

definition ApproveCustomerRegistration :: "ledger \<Rightarrow> string \<Rightarrow> string \<Rightarrow> error option \<times> ledger" where
  "ApproveCustomerRegistration L requestID ownerNetworkAddress =
     (case GetState L requestID of
        None \<Rightarrow> (Some CustomerRegistrationRequestNotFound, L)
      | Some reqBytes \<Rightarrow>
          (case unmarshalRegisterCustomerRequest reqBytes of
             (req, ok) \<Rightarrow>
               if \<not> ok then (Some JsonError, L)
               else
                 (case GetState L (RC_TokenID req) of
                    None \<Rightarrow> (Some TokenNotFound, L)
                  | Some tokenBytes \<Rightarrow>
                      (case unmarshalToken tokenBytes of
                         (token, ok') \<Rightarrow>
                           if \<not> ok' then (Some JsonError, L)
                           else if T_Owner token \<noteq> ownerNetworkAddress then (Some CallerIsNotTokenOwner, L)
                           else if RC_Approved req then (Some AlreadyApproved, L)
                           else
                             let L1 = PutState L requestID
                                        (marshalRegisterCustomerRequest (req\<lparr>RC_Approved := True\<rparr>));
                                 customerKey = ''customer_'' @ RC_NetworkAddress req @ ''_'' @ RC_TokenID req
                             in
                             (None,
                              PutState L1 customerKey
                                (marshalCustomer
                                   \<lparr>C_NetworkAddress = RC_NetworkAddress req, C_Name = RC_Name req,
                                    C_PasswordHash = RC_PasswordHash req, C_TokenID = RC_TokenID req,
                                    C_Approved = True, C_Balance = 0, C_TransferIDs = None,
                                    C_TokenTransferIDs = None\<rparr>))))))"

definition CustomerRequestMint :: "ledger \<Rightarrow> string \<Rightarrow> string \<Rightarrow> int \<Rightarrow> error option \<times> ledger" where
  "CustomerRequestMint L networkAddress tokenID amount =
     (let customerKey = ''customer_'' @ networkAddress @ ''_'' @ tokenID in
      case GetState L customerKey of
        None \<Rightarrow> (Some CustomerNotRegistered, L)
      | Some customerBytes \<Rightarrow>
          (case unmarshalCustomer customerBytes of
             (customer, ok) \<Rightarrow>
               if \<not> ok then (Some JsonError, L)
               else
                 let requestID = ''custmintreq_'' @ C_NetworkAddress customer @ ''_'' @ tokenID in
                 (None,
                  PutState L requestID
                    (marshalMintRequest
                       \<lparr>MR_RequestID = requestID, MR_TokenID = tokenID,
                        MR_RequestedBy = C_NetworkAddress customer, MR_Amount = amount,
                        MR_Approved = False\<rparr>))))"

definition ApproveCustomerMint :: "ledger \<Rightarrow> string \<Rightarrow> string \<Rightarrow> error option \<times> ledger" where
  "ApproveCustomerMint L requestID ownerNetworkAddress =
     (case GetState L requestID of
        None \<Rightarrow> (Some MintRequestNotFound, L)
      | Some reqBytes \<Rightarrow>
          (case unmarshalMintRequest reqBytes of
             (mintReq, ok) \<Rightarrow>
               if \<not> ok then (Some JsonError, L)
               else
                 (case GetState L (MR_TokenID mintReq) of
                    None \<Rightarrow> (Some TokenNotFound, L)
                  | Some tokenBytes \<Rightarrow>
                      (case unmarshalToken tokenBytes of
                         (token, ok') \<Rightarrow>
                           if \<not> ok' then (Some JsonError, L)
                           else if T_Owner token \<noteq> ownerNetworkAddress then (Some CallerIsNotTokenOwner, L)
                           else if MR_Approved mintReq then (Some MintRequestAlreadyApproved, L)
                           else if T_Minted token < MR_Amount mintReq
                           then (Some (InsufficientMintedCoinBalance (T_Minted token) (MR_Amount mintReq)), L)
                           else
                             let L1 = PutState L requestID (marshalMintRequest (mintReq\<lparr>MR_Approved := True\<rparr>));
                                 L2 = PutState L1 (MR_TokenID mintReq)
                                        (marshalToken
                                           (token\<lparr>T_Minted := wrap64 (T_Minted token - MR_Amount mintReq)\<rparr>));
                                 customerKey = ''customer_'' @ MR_RequestedBy mintReq @ ''_'' @ MR_TokenID mintReq
                             in
                             (case GetState L2 customerKey of
                                None \<Rightarrow> (Some CustomerNotFound, L2)
                              | Some custBytes \<Rightarrow>
                                  (case unmarshalCustomer custBytes of
                                     (cust, ok'') \<Rightarrow>
                                       if \<not> ok'' then (Some JsonError, L2)
                                       else
                                         (None,
                                          PutState L2 customerKey
                                            (marshalCustomer
                                               (cust\<lparr>C_Balance := wrap64 (C_Balance cust + MR_Amount mintReq)\<rparr>)))))))))"

subsection \<open>The transfer protocol\<close>

text \<open>
  Where the chaincode drops the error of \<open>json.Marshal\<close> it writes \<open>nil\<close> on a failure,
  and the stub then answers \<open>nil\<close> for the key, as for a key never written.
\<close>

definition PutStateOrNil :: "ledger \<Rightarrow> string \<Rightarrow> bytes option \<Rightarrow> ledger" where
  "PutStateOrNil L k v = (case v of None \<Rightarrow> AList.delete k L | Some b \<Rightarrow> PutState L k b)"

text \<open>
  The amount arrives as a string: \<open>None\<close> is a text that \<open>strconv.ParseFloat\<close> rejects
  for its syntax, \<open>Some t\<close> a text of a number. The random UUID is the argument \<open>uuid\<close>.
\<close>

definition CreateTransferRequest ::
  "ledger \<Rightarrow> string \<Rightarrow> string \<Rightarrow> string \<Rightarrow> string \<Rightarrow> string \<Rightarrow> ftext option \<Rightarrow> string \<Rightarrow>
   (string \<times> error option) \<times> ledger" where
  "CreateTransferRequest L senderParticipantID receiverParticipantID senderTokenTransferID
     receiverTokenTransferID tokenID amountStr uuid =
     (case Option.bind amountStr ParseFloat of
        None \<Rightarrow> (([], Some InvalidAmount), L)
      | Some amount \<Rightarrow>
          let transferRequestID = ''transfer_'' @ uuid in
          (case marshalTransferRequest
                  \<lparr>X_TransferRequestID = transferRequestID, X_TokenID = tokenID, X_Amount = amount,
                   X_SenderTransferID = senderParticipantID,
                   X_ReceiverTransferID = receiverParticipantID,
                   X_SenderTokenTransferID = senderTokenTransferID,
                   X_ReceiverTokenTransferID = receiverTokenTransferID,
                   X_Status = ''PendingOwnerApproval''\<rparr> of
             None \<Rightarrow> (([], Some JsonError), L)
           | Some requestBytes \<Rightarrow> ((transferRequestID, None), PutState L transferRequestID requestBytes)))"

definition ApproveTransferByOwner :: "ledger \<Rightarrow> string \<Rightarrow> string \<Rightarrow> error option \<times> ledger" where
  "ApproveTransferByOwner L transferRequestID approver =
     (case GetState L transferRequestID of
        None \<Rightarrow> (Some TransferRequestNotFound, L)
      | Some reqBytes \<Rightarrow>
          (case unmarshalTransferRequest reqBytes of
             (request, ok) \<Rightarrow>
               if \<not> ok then (Some JsonError, L)
               else if X_Status request \<noteq> ''PendingOwnerApproval'' then (Some NotPendingOwnerApproval, L)
               else if X_SenderTransferID request \<noteq> approver then (Some ApproverIsNotSender, L)
               else
                 (None,
                  PutStateOrNil L transferRequestID
                    (marshalTransferRequest (request\<lparr>X_Status := ''PendingReceiverApproval''\<rparr>)))))"

text \<open>\<open>strconv.ParseFloat(string(senderBalBytes), 64)\<close>: a JSON object is not a number.\<close>

definition parse_balance :: "bytes \<Rightarrow> float64 option" where
  "parse_balance b = (case b of Txt t \<Rightarrow> ParseFloat t | Obj _ \<Rightarrow> None)"

definition ApproveTransferByReceiver :: "ledger \<Rightarrow> string \<Rightarrow> string \<Rightarrow> error option \<times> ledger" where
  "ApproveTransferByReceiver L transferRequestID approver =
     (case GetState L transferRequestID of
        None \<Rightarrow> (Some TransferRequestNotFound, L)
      | Some reqBytes \<Rightarrow>
          (case unmarshalTransferRequest reqBytes of
             (request, ok) \<Rightarrow>
               if \<not> ok then (Some JsonError, L)
               else if X_Status request \<noteq> ''PendingReceiverApproval''
               then (Some NotPendingReceiverApproval, L)
               else
                 (case GetState L (X_TokenID request) of
                    None \<Rightarrow> (Some TokenNotFound, L)
                  | Some tokenBytes \<Rightarrow>
                      (case unmarshalToken tokenBytes of
                         (token, ok') \<Rightarrow>
                           if \<not> ok' then (Some JsonError, L)
                           else if T_Owner token \<noteq> approver then (Some ApproverIsNotTokenOwner, L)
                           else
                             (case GetState L (X_SenderTransferID request) of
                                None \<Rightarrow> (Some SenderBalanceNotFound, L)
                              | Some senderBalBytes \<Rightarrow>
                                  (case parse_balance senderBalBytes of
                                     None \<Rightarrow> (Some InvalidSenderBalance, L)
                                   | Some senderBalance \<Rightarrow>
                                       if float_less senderBalance (X_Amount request)
                                       then
                                         (Some InsufficientFundsForTransfer,
                                          PutStateOrNil L transferRequestID
                                            (marshalTransferRequest (request\<lparr>X_Status := ''Rejected''\<rparr>)))
                                       else
                                         let L1 = PutState L (X_SenderTransferID request)
                                                    (Txt (Sprintf_f (float_sub senderBalance (X_Amount request))));
                                             L2 = PutState L1 (X_TokenID request)
                                                    (marshalToken
                                                       (token\<lparr>T_Minted :=
                                                          wrap64 (T_Minted token + float_to_int (X_Amount request))\<rparr>))
                                         in
                                         (None,
                                          PutStateOrNil L2 transferRequestID
                                            (marshalTransferRequest (request\<lparr>X_Status := ''Completed''\<rparr>)))))))))"

subsection \<open>The combined view of a token's participants\<close>

text \<open>
  Modelled from the spec: the predicate query of the ledger (\<open>GetQueryResult\<close>), which
  the stub of the repository does not implement. It returns the decoded-record matches of a
  selector in an order of the store's own; the order of the list stands for it. A selector
  is an equality of a top-level field with a string, or a disjunction of selectors. The
  selector texts of the chaincode are built by \<open>fmt.Sprintf\<close> around an identifier, which
  is taken to hold no character that ends the JSON string.
\<close>

datatype selector = FieldEq string string | SelOr selector selector

fun matches :: "selector \<Rightarrow> bytes \<Rightarrow> bool" where
  "matches (FieldEq f v) (Obj fs) = (field fs f = Some (JStr v))"
| "matches (FieldEq f v) (Txt _) = False"
| "matches (SelOr a b) d = (matches a d \<or> matches b d)"

definition GetQueryResult :: "ledger \<Rightarrow> selector \<Rightarrow> bytes list" where
  "GetQueryResult L sel = filter (matches sel) (map snd L)"

definition GetParticipantTransferHistory :: "ledger \<Rightarrow> string \<Rightarrow> TransferRequest list" where
  "GetParticipantTransferHistory L participantTransferID =
     map (\<lambda>d. fst (unmarshalTransferRequest d))
       (filter (\<lambda>d. snd (unmarshalTransferRequest d))
          (GetQueryResult L
             (SelOr (FieldEq ''sender_transfer_id'' participantTransferID)
                    (FieldEq ''receiver_transfer_id'' participantTransferID))))"

record TokenParticipantsView =
  V_tokenID :: string
  V_participantCount :: nat
  V_participants :: "Participant list"
  V_participantTransfers :: "(string \<times> TransferRequest list) list"

definition GetTokenParticipantsAndTransactions ::
  "ledger \<Rightarrow> string \<Rightarrow> string \<Rightarrow> error + TokenParticipantsView" where
  "GetTokenParticipantsAndTransactions L tokenID callerTransferID =
     (case GetState L tokenID of
        None \<Rightarrow> Inl TokenNotFound
      | Some tokenBytes \<Rightarrow>
          (case unmarshalToken tokenBytes of
             (token, ok) \<Rightarrow>
               if \<not> ok then Inl JsonError
               else if T_Owner token \<noteq> callerTransferID then Inl AccessDeniedNotTokenOwner
               else
                 let participants =
                       map (\<lambda>d. fst (unmarshalParticipant d))
                         (filter (\<lambda>d. snd (unmarshalParticipant d))
                            (GetQueryResult L (FieldEq ''token_transfer_id'' tokenID)));
                     participantTransfers =
                       fold (\<lambda>p m. AList.update (P_NetworkAddress p)
                                      (GetParticipantTransferHistory L (P_NetworkAddress p)) m)
                         participants []
                 in
                 Inr \<lparr>V_tokenID = tokenID, V_participantCount = length participants,
                      V_participants = participants,
                      V_participantTransfers = participantTransfers\<rparr>))"

subsection \<open>The operations that write, as one transition function\<close>

text \<open>
  The views of the chaincode never call \<open>PutState\<close>; the thirteen operations below are
  all that change the ledger. An operation returns its error (if any) and the ledger as
  the stub holds it when the operation returns.
\<close>

datatype op =
    OpInitLedger
  | OpSubmitRegistration string string string
  | OpRequestTokenRequest string string string string
  | OpApproveTokenRequest string
  | OpRequestMintCoins string string int
  | OpApproveMintRequest string
  | OpRegisterCustomer string string string string
  | OpApproveCustomerRegistration string string
  | OpCustomerRequestMint string string int
  | OpApproveCustomerMint string string
  | OpCreateTransferRequest string string string string string "ftext option" string
  | OpApproveTransferByOwner string string
  | OpApproveTransferByReceiver string string

fun exec :: "(string \<Rightarrow> string) \<Rightarrow> ctx \<Rightarrow> op \<Rightarrow> ledger \<Rightarrow> error option \<times> ledger" where
  "exec sha c OpInitLedger L = InitLedger L"
| "exec sha c (OpSubmitRegistration name pw country) L =
     (case SubmitRegistration sha c L name pw country of ((a, e), L') \<Rightarrow> (e, L'))"
| "exec sha c (OpRequestTokenRequest name addr pw country) L = RequestTokenRequest L name addr pw country"
| "exec sha c (OpApproveTokenRequest addr) L = ApproveTokenRequest c L addr"
| "exec sha c (OpRequestMintCoins addr pw amount) L = RequestMintCoins c L addr pw amount"
| "exec sha c (OpApproveMintRequest rid) L = ApproveMintRequest c L rid"
| "exec sha c (OpRegisterCustomer addr name pw tok) L = RegisterCustomer L addr name pw tok"
| "exec sha c (OpApproveCustomerRegistration rid owner) L = ApproveCustomerRegistration L rid owner"
| "exec sha c (OpCustomerRequestMint addr tok amount) L = CustomerRequestMint L addr tok amount"
| "exec sha c (OpApproveCustomerMint rid owner) L = ApproveCustomerMint L rid owner"
| "exec sha c (OpCreateTransferRequest s r st rt tok amt uuid) L =
     (case CreateTransferRequest L s r st rt tok amt uuid of ((a, e), L') \<Rightarrow> (e, L'))"
| "exec sha c (OpApproveTransferByOwner rid approver) L = ApproveTransferByOwner L rid approver"
| "exec sha c (OpApproveTransferByReceiver rid approver) L = ApproveTransferByReceiver L rid approver"

text \<open>An \<open>int\<close> argument of an operation is a value of 64 bits.\<close>

fun op_ok :: "op \<Rightarrow> bool" where
  "op_ok (OpRequestMintCoins addr pw amount) = in_int64 amount"
| "op_ok (OpCustomerRequestMint addr tok amount) = in_int64 amount"
| "op_ok _ = True"

text \<open>The states of the ledger: what the operations make of the empty store.\<close>

inductive reachable :: "(string \<Rightarrow> string) \<Rightarrow> ledger \<Rightarrow> bool" for sha where
  reachable_empty: "reachable sha []"
| reachable_step: "reachable sha L \<Longrightarrow> op_ok p \<Longrightarrow> reachable sha (snd (exec sha c p L))"

subsection \<open>Notions the properties are stated with\<close>

text \<open>The 25 token keys in the order of the loops, and what a token key holds.\<close>

definition token_keys :: "string list" where
  "token_keys = map tid [1..<Suc maxTokens]"

definition available :: "ledger \<Rightarrow> string \<Rightarrow> bool" where
  "available L k = (case GetState L k of None \<Rightarrow> False | Some b \<Rightarrow> T_Available (fst (unmarshalToken b)))"

definition decodes_as_token :: "ledger \<Rightarrow> string \<Rightarrow> bool" where
  "decodes_as_token L k = (case GetState L k of None \<Rightarrow> True | Some b \<Rightarrow> snd (unmarshalToken b))"

definition tokens_decode :: "ledger \<Rightarrow> bool" where
  "tokens_decode L = list_all (decodes_as_token L) token_keys"

text \<open>Sample values for the closed instances of the properties.\<close>

definition admin_ctx :: ctx where
  "admin_ctx = \<lparr>GetID = ''admin-id'', GetMSPID = ''Org1MSP''\<rparr>"

definition alice :: Participant where
  "alice = \<lparr>P_Name = ''Alice'', P_NetworkAddress = ''a1'', P_ClientID = ''id-alice'',
     P_Approved = False, P_PasswordHash = ''pw'', P_Country = ''USA'', P_TokenID = [],
     P_TransferIDs = None\<rparr>"

definition token_rec :: "string \<Rightarrow> string \<Rightarrow> bool \<Rightarrow> int \<Rightarrow> Token" where
  "token_rec k owner av m = \<lparr>T_TokenID = k, T_Owner = owner, T_Available = av, T_Minted = m, T_TransferIDs = None\<rparr>"

definition pending_request :: "string \<Rightarrow> TokenRequest" where
  "pending_request a = \<lparr>TR_RequestID = ''tokenrequest_'' @ a, TR_NetworkAddr = a, TR_Status = ''PENDING'', TR_TokenID = []\<rparr>"





definition xfer_req :: "string \<Rightarrow> float64 \<Rightarrow> TransferRequest" where
  "xfer_req st amount =
     \<lparr>X_TransferRequestID = ''transfer_u1'', X_TokenID = ''token_1'', X_Amount = amount,
      X_SenderTransferID = ''s1'', X_ReceiverTransferID = ''a1'', X_SenderTokenTransferID = ''s1t'',
      X_ReceiverTokenTransferID = ''a1t'', X_Status = st\<rparr>"

definition xfer_bytes :: "string \<Rightarrow> int \<Rightarrow> bytes" where
  "xfer_bytes st n =
     Obj [(''transfer_request_id'', JStr ''transfer_u1''), (''token_id'', JStr ''token_1''),
          (''amount'', JInt n), (''sender_transfer_id'', JStr ''s1''),
          (''receiver_transfer_id'', JStr ''a1''), (''sender_token_transfer_id'', JStr ''s1t''),
          (''receiver_token_transfer_id'', JStr ''a1t''), (''status'', JStr st)]"

definition ledger_xfer :: "string \<Rightarrow> int \<Rightarrow> rat \<Rightarrow> ledger" where
  "ledger_xfer st n b =
     [(''token_1'', marshalToken (token_rec ''token_1'' ''a1'' False 10)),
      (''s1'', Txt (TFin b)),
      (''transfer_u1'', xfer_bytes st n)]"




text \<open>
  The keys of a stored object; a number text has none.
\<close>

fun has_key :: "string \<Rightarrow> bytes \<Rightarrow> bool" where
  "has_key k (Obj fs) = (k \<in> set (map fst fs))"
| "has_key k (Txt t) = False"

definition no_token_transfer_id :: "ledger \<Rightarrow> bool" where
  "no_token_transfer_id L = list_all (\<lambda>kv. \<not> has_key ''token_transfer_id'' (snd kv)) L"

text \<open>
  The record that \<open>InitLedger\<close> writes at a token key.
\<close>

definition init_token :: "string \<Rightarrow> bytes" where
  "init_token k = marshalToken \<lparr>T_TokenID = k, T_Owner = [], T_Available = True, T_Minted = 0, T_TransferIDs = None\<rparr>"

text \<open>
  A run of the contract for the closed instances: a stand-in for the digest that sends
  Alice to the address \<open>a1\<close> and every other name to \<open>b1\<close>, two callers, and the ledger
  that a list of calls makes of the empty store.
\<close>

definition sha0 :: "string \<Rightarrow> string" where
  "sha0 n = (if n = ''Alice'' then ''a1'' else ''b1'')"

definition alice_ctx :: ctx where
  "alice_ctx = \<lparr>GetID = ''id-alice'', GetMSPID = ''Org2MSP''\<rparr>"

definition bob_ctx :: ctx where
  "bob_ctx = \<lparr>GetID = ''id-bob'', GetMSPID = ''Org2MSP''\<rparr>"


definition tokens_from :: "string list \<Rightarrow> ledger" where
  "tokens_from ks = map (\<lambda>k. (k, init_token k)) ks"

definition approved_request :: "string \<Rightarrow> string \<Rightarrow> TokenRequest" where
  "approved_request a k =
     \<lparr>TR_RequestID = ''tokenrequest_'' @ a, TR_NetworkAddr = a, TR_Status = ''APPROVED'', TR_TokenID = k\<rparr>"

definition run :: "(ctx \<times> op) list \<Rightarrow> ledger" where
  "run steps = fold (\<lambda>(c, p) L. snd (exec sha0 c p L)) steps []"

definition steps_alice :: "(ctx \<times> op) list" where
  "steps_alice =
     [(admin_ctx, OpInitLedger),
      (alice_ctx, OpSubmitRegistration ''Alice'' ''pw'' ''USA''),
      (alice_ctx, OpRequestTokenRequest ''Alice'' ''a1'' ''pw'' ''USA''),
      (admin_ctx, OpApproveTokenRequest ''a1'')]"

definition steps_both :: "(ctx \<times> op) list" where
  "steps_both =
     steps_alice @
     [(bob_ctx, OpSubmitRegistration ''Bob'' ''pw2'' ''UK''),
      (bob_ctx, OpRequestTokenRequest ''Bob'' ''b1'' ''pw2'' ''UK''),
      (admin_ctx, OpInitLedger),
      (admin_ctx, OpApproveTokenRequest ''b1'')]"






section \<open>Properties\<close>

subsection \<open>The stub and the codecs\<close>

lemma GetState_PutState:
  "GetState (PutState L k v) k' = (if k' = k then Some v else GetState L k')"
  by (simp add: GetState_def PutState_def update_conv')




lemma enc_dec_strs [simp]: "dec_strs (Some (enc_strs x)) = (x, True)"
  by (cases x) (simp_all add: enc_strs_def)

lemma unmarshal_marshalToken:
  "in_int64 (T_Minted t) \<Longrightarrow> unmarshalToken (marshalToken t) = (t, True)"
  by (simp add: unmarshalToken_def marshalToken_def field_def)

lemma unmarshal_marshalParticipant:
  "unmarshalParticipant (marshalParticipant p) = (p, True)"
  by (simp add: unmarshalParticipant_def marshalParticipant_def field_def)

lemma unmarshal_marshalTokenRequest:
  "unmarshalTokenRequest (marshalTokenRequest r) = (r, True)"
  by (simp add: unmarshalTokenRequest_def marshalTokenRequest_def field_def)



lemma unmarshal_marshalRegisterCustomerRequest:
  "unmarshalRegisterCustomerRequest (marshalRegisterCustomerRequest r) = (r, True)"
  by (simp add: unmarshalRegisterCustomerRequest_def marshalRegisterCustomerRequest_def field_def)

subsection \<open>Initialisation\<close>



subsection \<open>Token allocation\<close>

lemma token_keys_eq:
  "token_keys = [''token_1'', ''token_2'', ''token_3'', ''token_4'', ''token_5'', ''token_6'',
     ''token_7'', ''token_8'', ''token_9'', ''token_10'', ''token_11'', ''token_12'', ''token_13'',
     ''token_14'', ''token_15'', ''token_16'', ''token_17'', ''token_18'', ''token_19'', ''token_20'',
     ''token_21'', ''token_22'', ''token_23'', ''token_24'', ''token_25'']"
  unfolding token_keys_def maxTokens_def by code_simp

lemma findAvailableToken_from_filter:
  "list_all (decodes_as_token L) (map tid xs) \<Longrightarrow>
   findAvailableToken_from L xs =
     (case filter (available L) (map tid xs) of [] \<Rightarrow> Inr [] | k # _ \<Rightarrow> Inr k)"
  by (induction xs) (auto simp: available_def decodes_as_token_def split: option.splits prod.splits)

lemma findAvailableToken_filter:
  "tokens_decode L \<Longrightarrow>
   findAvailableToken L = (case filter (available L) token_keys of [] \<Rightarrow> Inr [] | k # _ \<Rightarrow> Inr k)"
  unfolding findAvailableToken_def tokens_decode_def token_keys_def
  by (rule findAvailableToken_from_filter)

lemma token_keys_tid: "k \<in> set token_keys \<Longrightarrow> \<exists>i. k = tid i"
  by (auto simp: token_keys_def)

lemma tid_not_empty: "tid i \<noteq> []" by (simp add: tid_def)
lemma tid_not_request: "tid i \<noteq> ''tokenrequest_'' @ a" by (simp add: tid_def)
lemmas tid_not_request' = tid_not_request [simplified]
lemma request_not_addr: "''tokenrequest_'' @ a \<noteq> a"
proof
  assume "''tokenrequest_'' @ a = a"
  then have "length (''tokenrequest_'' @ a) = length a" by simp
  then show False by simp
qed

lemmas request_not_addr' = request_not_addr [simplified]
lemma participant_not_available:
  "T_Available (fst (unmarshalToken (marshalParticipant p))) = False"
  by (simp add: unmarshalToken_def marshalParticipant_def field_def)

lemma ApproveTokenRequest_filter:
  assumes admin: "GetMSPID c = ''Org1MSP''"
    and req: "GetState L (''tokenrequest_'' @ a) = Some rb"
    and pending: "TR_Status (fst (unmarshalTokenRequest rb)) = ''PENDING''"
    and part: "GetState L a = Some (marshalParticipant p)"
    and dec: "tokens_decode L"
  shows "ApproveTokenRequest c L a =
     (case filter (available L) token_keys of
        [] \<Rightarrow> (Some NoTokensAvailable, L)
      | k # _ \<Rightarrow>
          (None,
           PutState
             (PutState
                (PutState L (''tokenrequest_'' @ a)
                   (marshalTokenRequest
                      ((fst (unmarshalTokenRequest rb))\<lparr>TR_Status := ''APPROVED'', TR_TokenID := k\<rparr>)))
                a (marshalParticipant (p\<lparr>P_TokenID := k, P_Approved := True\<rparr>)))
             k
             (marshalToken
                ((fst (unmarshalToken (the (GetState L k))))\<lparr>T_Owner := a, T_Available := False\<rparr>))))"
proof (cases "filter (available L) token_keys")
  case Nil
  then show ?thesis
    using admin req pending
    by (simp add: ApproveTokenRequest_def VerifyAdmin_def findAvailableToken_filter [OF dec])
next
  case (Cons k rest)
  then have "k \<in> set (filter (available L) token_keys)" by simp
  then have av: "available L k" and "k \<in> set token_keys" by simp_all
  then obtain i where k: "k = tid i" using token_keys_tid by blast
  from av obtain tb where tb: "GetState L k = Some tb" "T_Available (fst (unmarshalToken tb))"
    by (auto simp: available_def split: option.splits)
  have ne: "k \<noteq> a"
  proof
    assume "k = a"
    with part tb have "T_Available (fst (unmarshalToken (marshalParticipant p)))" by simp
    then show False by (simp add: participant_not_available)
  qed
  have k1: "k \<noteq> []" and k2: "k \<noteq> ''tokenrequest_'' @ a"
    unfolding k by (rule tid_not_empty, rule tid_not_request)
  show ?thesis
    using admin req pending part tb ne Cons k1 k2 [simplified]
    by (simp add: ApproveTokenRequest_def VerifyAdmin_def findAvailableToken_filter [OF dec]
        GetState_PutState request_not_addr' Let_def unmarshal_marshalParticipant)
qed




subsection \<open>The token request with a pincode\<close>

lemma unmarshalParticipant7_marshal:
  "unmarshalParticipant7 (marshalParticipant p) = (p\<lparr>P_TransferIDs := None\<rparr>, True)"
  by (simp add: unmarshalParticipant7_def unmarshalParticipant_def marshalParticipant_def field_def)

text \<open>
  With matching name, password hash and country the operation checks only the length of
  the pincode: it fails with "invalid pincode: must be 6 digits" exactly when the length is
  not 6, and otherwise writes the PENDING request carrying the code.
\<close>

lemma RequestTokenRequestPin_length_only:
  assumes "GetState L a = Some b" "unmarshalParticipant7 b = (p, True)"
    "P_Name p = name" "P_PasswordHash p = pw" "P_Country p = country"
  shows "(fst (RequestTokenRequestPin L name a pw country pin) = Some InvalidPincode \<longleftrightarrow> length pin \<noteq> 6) \<and>
         (length pin = 6 \<longrightarrow> RequestTokenRequestPin L name a pw country pin =
            (None, PutState L (''tokenrequest_'' @ a) (marshalTokenRequestPin \<lparr>TRP_RequestID = ''tokenrequest_'' @ a,
         TRP_NetworkAddr = a, TRP_Status = ''PENDING'', TRP_TokenID = [],
         TRP_Pincode = pin\<rparr>)))"
  using assms by (simp add: RequestTokenRequestPin_def Let_def)


text \<open>
  Claim C8 says that the operation fails with a validation error if and only if the code
  is not exactly 6 digits. The six letters \<open>abcdef\<close>, which are no digits, are accepted
  and stored in a PENDING request: the check that the message and the comment of the
  source announce ("must be 6 digits") is not made.
\<close>

theorem RequestTokenRequestPin_six_letters:
  "RequestTokenRequestPin
     [(''a1'', marshalParticipant \<lparr>P_Name = ''Alice'', P_NetworkAddress = ''a1'', P_ClientID = ''id'',
         P_Approved = False, P_PasswordHash = ''pw'', P_Country = ''USA'', P_TokenID = [],
         P_TransferIDs = None\<rparr>)]
     ''Alice'' ''a1'' ''pw'' ''USA'' ''abcdef'' =
   (None,
    [(''a1'', marshalParticipant \<lparr>P_Name = ''Alice'', P_NetworkAddress = ''a1'', P_ClientID = ''id'',
         P_Approved = False, P_PasswordHash = ''pw'', P_Country = ''USA'', P_TokenID = [],
         P_TransferIDs = None\<rparr>),
     (''tokenrequest_a1'', marshalTokenRequestPin \<lparr>TRP_RequestID = ''tokenrequest_a1'',
         TRP_NetworkAddr = ''a1'', TRP_Status = ''PENDING'', TRP_TokenID = [],
         TRP_Pincode = ''abcdef''\<rparr>)])"
  by (simp add: RequestTokenRequestPin_def GetState_def PutState_def unmarshalParticipant7_marshal Let_def)

text \<open>The call returns no error although no character of the code is a digit.\<close>

theorem RequestTokenRequestPin_six_letters_witness:
  "fst (RequestTokenRequestPin
     [(''a1'', marshalParticipant \<lparr>P_Name = ''Alice'', P_NetworkAddress = ''a1'', P_ClientID = ''id'',
         P_Approved = False, P_PasswordHash = ''pw'', P_Country = ''USA'', P_TokenID = [],
         P_TransferIDs = None\<rparr>)]
     ''Alice'' ''a1'' ''pw'' ''USA'' ''abcdef'') = None \<and>
   list_all (\<lambda>ch. ch \<notin> set ''0123456789'') ''abcdef''"
  using RequestTokenRequestPin_six_letters by simp

subsection \<open>Customer mint approval\<close>

lemma wrap64_in_range: "in_int64 n \<Longrightarrow> wrap64 n = n"
  by (simp add: in_int64_def wrap64_def)

lemma wrap64_range: "in_int64 (wrap64 n)"
  by (simp add: in_int64_def wrap64_def) 





subsection \<open>Completion of a transfer\<close>

text \<open>Evaluation of the number model at the sample values.\<close>

lemma floor_rat_numeral_div [simp]: "\<lfloor>(numeral a :: rat) / numeral b\<rfloor> = numeral a div numeral b"
  using floor_divide_of_int_eq [of "numeral a" "numeral b", where ?'a = rat] by simp

lemma floor_rat_one_div [simp]: "\<lfloor>(1 :: rat) / numeral b\<rfloor> = 1 div numeral b"
  using floor_divide_of_int_eq [of 1 "numeral b", where ?'a = rat] by simp

lemma round_f64_1: "round_f64 1 = Fin 1"
  unfolding round_f64_def exponent2_def round_even_def Let_def by (simp add: pow2_def bitlen.simps)

lemma round_f64_80: "round_f64 80 = Fin 80"
  unfolding round_f64_def exponent2_def round_even_def Let_def by (simp add: pow2_def bitlen.simps)

lemma round_f64_200: "round_f64 200 = Fin 200"
  unfolding round_f64_def exponent2_def round_even_def Let_def by (simp add: pow2_def bitlen.simps)

lemma round_f64_120: "round_f64 120 = Fin 120"
  unfolding round_f64_def exponent2_def round_even_def Let_def by (simp add: pow2_def bitlen.simps)


lemma round_f64_B: "round_f64 (2097153 / 2097152) = Fin (2097153 / 2097152)"
  unfolding round_f64_def exponent2_def round_even_def Let_def by (simp add: pow2_def bitlen.simps)

lemma round_f64_D: "round_f64 (1 / 2097152) = Fin (1 / 2097152)"
  unfolding round_f64_def exponent2_def round_even_def Let_def by (simp add: pow2_def bitlen.simps)

lemma Sprintf_f_D: "Sprintf_f (Fin (1 / 2097152)) = TFin 0"
  unfolding Sprintf_f_def round_even_def Let_def by simp

lemma Sprintf_f_120: "Sprintf_f (Fin 120) = TFin 120"
  unfolding Sprintf_f_def round_even_def Let_def by simp

lemma marshal_xfer_80: "marshalTransferRequest (xfer_req st (Fin 80)) = Some (xfer_bytes st 80)"
  by (simp add: marshalTransferRequest_def xfer_req_def xfer_bytes_def enc_float_def)

lemma marshal_xfer_1: "marshalTransferRequest (xfer_req st (Fin 1)) = Some (xfer_bytes st 1)"
  by (simp add: marshalTransferRequest_def xfer_req_def xfer_bytes_def enc_float_def)

lemma unmarshal_xfer_80: "unmarshalTransferRequest (xfer_bytes st 80) = (xfer_req st (Fin 80), True)"
  by (simp add: unmarshalTransferRequest_def xfer_req_def xfer_bytes_def field_def round_f64_80)

lemma unmarshal_xfer_1: "unmarshalTransferRequest (xfer_bytes st 1) = (xfer_req st (Fin 1), True)"
  by (simp add: unmarshalTransferRequest_def xfer_req_def xfer_bytes_def field_def round_f64_1)


lemma dec_float_Fin: "\<exists>q. fst (dec_float v) = Fin q"
  by (cases v rule: dec_float.cases) (auto split: float64.splits)

lemma unmarshalTransferRequest_ok:
  assumes "unmarshalTransferRequest rb = (r, True)"
  shows "(\<exists>fs. rb = Obj fs) \<and> (\<exists>q. X_Amount r = Fin q)"
proof (cases rb)
  case (Obj fs)
  with assms have "X_Amount r = fst (dec_float (field fs ''amount''))"
    by (auto simp: unmarshalTransferRequest_def)
  with Obj show ?thesis using dec_float_Fin by auto
next
  case (Txt t)
  with assms show ?thesis by (simp add: unmarshalTransferRequest_def)
qed

lemma marshalTransferRequest_Fin:
  "X_Amount r = Fin q \<Longrightarrow> \<exists>fs. marshalTransferRequest r = Some (Obj fs)"
  by (simp add: marshalTransferRequest_def enc_float_def)

lemma marshalTransferRequest_status:
  "marshalTransferRequest r = Some b \<Longrightarrow> X_Status (fst (unmarshalTransferRequest b)) = X_Status r"
  by (auto simp: marshalTransferRequest_def unmarshalTransferRequest_def field_def split: option.splits)

lemma token_no_status: "X_Status (fst (unmarshalTransferRequest (marshalToken t))) = []"
  by (simp add: unmarshalTransferRequest_def marshalToken_def field_def)

lemma float_to_int_trunc: "in_int64 (trunc0 q) \<Longrightarrow> float_to_int (Fin q) = trunc0 q"
  by (simp add: float_to_int_def)

text \<open>
  Claim C1, as amended. For a transfer request in status PendingReceiverApproval whose
  token's owner is the supplied approver, with a balance record that reads as \<open>B\<close> and an
  amount \<open>A\<close> such that \<open>B < A\<close> does not hold: \<open>ApproveTransferByReceiver\<close> returns no
  error; the balance record becomes the text of \<open>B - A\<close> with six digits after the point
  (\<open>fmt.Sprintf("%f", ...)\<close>); the mint pool grows, in Go's \<open>int\<close> arithmetic, by
  \<open>int(A)\<close>, which is \<open>A\<close> truncated toward zero whenever that fits in 64 bits
  (\<open>float_to_int_trunc\<close>); and the status becomes Completed. The three records lie at
  three different keys.
\<close>

theorem ApproveTransferByReceiver_completes:
  assumes req: "GetState L rid = Some rb" "unmarshalTransferRequest rb = (r, True)"
      "X_Status r = ''PendingReceiverApproval''"
    and tok: "GetState L (X_TokenID r) = Some (marshalToken t)" "in_int64 (T_Minted t)"
      "T_Owner t = approver"
    and bal: "GetState L (X_SenderTransferID r) = Some (Txt bt)" "ParseFloat bt = Some B"
    and enough: "\<not> float_less B (X_Amount r)"
  shows "\<exists>rb'. marshalTransferRequest (r\<lparr>X_Status := ''Completed''\<rparr>) = Some rb' \<and>
           X_Status (fst (unmarshalTransferRequest rb')) = ''Completed'' \<and>
           ApproveTransferByReceiver L rid approver =
             (None,
              PutState
                (PutState
                   (PutState L (X_SenderTransferID r) (Txt (Sprintf_f (float_sub B (X_Amount r)))))
                   (X_TokenID r)
                   (marshalToken (t\<lparr>T_Minted := wrap64 (T_Minted t + float_to_int (X_Amount r))\<rparr>)))
                rid rb') \<and>
           X_SenderTransferID r \<noteq> X_TokenID r \<and> X_SenderTransferID r \<noteq> rid \<and> X_TokenID r \<noteq> rid"
proof -
  from unmarshalTransferRequest_ok [OF req(2)] obtain fs q where rb: "rb = Obj fs" and q: "X_Amount r = Fin q"
    by blast
  then have "X_Amount (r\<lparr>X_Status := ''Completed''\<rparr>) = Fin q" by simp
  from marshalTransferRequest_Fin [OF this] obtain fs' where
    m: "marshalTransferRequest (r\<lparr>X_Status := ''Completed''\<rparr>) = Some (Obj fs')" by blast
  have st: "X_Status (fst (unmarshalTransferRequest (Obj fs'))) = ''Completed''"
    using marshalTransferRequest_status [OF m] by simp
  have d1: "X_SenderTransferID r \<noteq> X_TokenID r"
    using tok(1) bal(1) by (auto simp: marshalToken_def)
  have d2: "X_SenderTransferID r \<noteq> rid"
    using req(1) bal(1) rb by auto
  have d3: "X_TokenID r \<noteq> rid"
  proof
    assume "X_TokenID r = rid"
    with req(1) tok(1) have "rb = marshalToken t" by simp
    with req(2,3) token_no_status [of t] show False by simp
  qed
  have "ApproveTransferByReceiver L rid approver =
             (None,
              PutState
                (PutState
                   (PutState L (X_SenderTransferID r) (Txt (Sprintf_f (float_sub B (X_Amount r)))))
                   (X_TokenID r)
                   (marshalToken (t\<lparr>T_Minted := wrap64 (T_Minted t + float_to_int (X_Amount r))\<rparr>)))
                rid (Obj fs'))"
    using req tok bal enough m
    by (simp add: ApproveTransferByReceiver_def unmarshal_marshalToken parse_balance_def
        PutStateOrNil_def Let_def)
  with m st d1 d2 d3 show ?thesis by blast
qed


text \<open>A balance of 200 and an amount of 80: the balance becomes 120, the pool 10 becomes 90.\<close>

theorem ApproveTransferByReceiver_completes_witness:
  "GetState (ledger_xfer ''PendingReceiverApproval'' 80 200) ''transfer_u1'' =
     Some (xfer_bytes ''PendingReceiverApproval'' 80) \<and>
   unmarshalTransferRequest (xfer_bytes ''PendingReceiverApproval'' 80) =
     (xfer_req ''PendingReceiverApproval'' (Fin 80), True) \<and>
   GetState (ledger_xfer ''PendingReceiverApproval'' 80 200) ''token_1'' =
     Some (marshalToken (token_rec ''token_1'' ''a1'' False 10)) \<and>
   GetState (ledger_xfer ''PendingReceiverApproval'' 80 200) ''s1'' = Some (Txt (TFin 200)) \<and>
   ParseFloat (TFin 200) = Some (Fin 200) \<and>
   \<not> float_less (Fin 200) (Fin 80) \<and>
   ApproveTransferByReceiver (ledger_xfer ''PendingReceiverApproval'' 80 200) ''transfer_u1'' ''a1'' =
     (None,
      [(''token_1'', marshalToken (token_rec ''token_1'' ''a1'' False 90)),
       (''s1'', Txt (TFin 120)),
       (''transfer_u1'', xfer_bytes ''Completed'' 80)])"
proof -
  let ?L = "ledger_xfer ''PendingReceiverApproval'' 80 200"
  let ?r = "xfer_req ''PendingReceiverApproval'' (Fin 80)"
  let ?t = "token_rec ''token_1'' ''a1'' False 10"
  have h1: "GetState ?L ''transfer_u1'' = Some (xfer_bytes ''PendingReceiverApproval'' 80)"
    by (simp add: GetState_def ledger_xfer_def)
  have h2: "unmarshalTransferRequest (xfer_bytes ''PendingReceiverApproval'' 80) = (?r, True)"
    by (rule unmarshal_xfer_80)
  have h3: "X_Status ?r = ''PendingReceiverApproval''" by (simp add: xfer_req_def)
  have h4: "GetState ?L (X_TokenID ?r) = Some (marshalToken ?t)"
    by (simp add: GetState_def ledger_xfer_def xfer_req_def)
  have h5: "in_int64 (T_Minted ?t)" by (simp add: token_rec_def in_int64_def)
  have h6: "T_Owner ?t = ''a1''" by (simp add: token_rec_def)
  have h7: "GetState ?L (X_SenderTransferID ?r) = Some (Txt (TFin 200))"
    by (simp add: GetState_def ledger_xfer_def xfer_req_def)
  have h8: "ParseFloat (TFin 200) = Some (Fin 200)" by (simp add: ParseFloat_def round_f64_200)
  have h9: "\<not> float_less (Fin 200) (X_Amount ?r)" by (simp add: xfer_req_def)
  have m: "marshalTransferRequest (?r\<lparr>X_Status := ''Completed''\<rparr>) = Some (xfer_bytes ''Completed'' 80)"
    using marshal_xfer_80 [of "''Completed''"] by (simp add: xfer_req_def)
  from ApproveTransferByReceiver_completes [OF h1 h2 h3 h4 h5 h6 h7 h8 h9] m
  have "ApproveTransferByReceiver ?L ''transfer_u1'' ''a1'' =
     (None,
      PutState
        (PutState
           (PutState ?L (X_SenderTransferID ?r) (Txt (Sprintf_f (float_sub (Fin 200) (X_Amount ?r)))))
           (X_TokenID ?r)
           (marshalToken (?t\<lparr>T_Minted := wrap64 (T_Minted ?t + float_to_int (X_Amount ?r))\<rparr>)))
        ''transfer_u1'' (xfer_bytes ''Completed'' 80))"
    by auto
  then have "ApproveTransferByReceiver ?L ''transfer_u1'' ''a1'' =
     (None,
      [(''token_1'', marshalToken (token_rec ''token_1'' ''a1'' False 90)),
       (''s1'', Txt (TFin 120)),
       (''transfer_u1'', xfer_bytes ''Completed'' 80)])"
    by (simp add: xfer_req_def token_rec_def round_f64_120 Sprintf_f_120 float_to_int_def trunc0_def
        in_int64_def wrap64_def PutState_def ledger_xfer_def)
  moreover have "\<not> float_less (Fin 200) (Fin 80)" by simp
  moreover have "GetState ?L ''token_1'' = Some (marshalToken ?t)"
    by (simp add: GetState_def ledger_xfer_def)
  moreover have "GetState ?L ''s1'' = Some (Txt (TFin 200))"
    by (simp add: GetState_def ledger_xfer_def)
  ultimately show ?thesis using h1 h2 h8 by blast
qed

text \<open>
  Claim C1 as stated says that the balance record becomes \<open>B - A\<close>. With the balance
  \<open>1 + 2^-21\<close> (the text 1.000000476837158203125) and the amount 1, both exact
  \<open>float64\<close> values, the difference is \<open>2^-21\<close>, yet the record written is 0.000000 and
  reads back as 0.
\<close>

theorem ApproveTransferByReceiver_balance_counterexample:
  "unmarshalTransferRequest (xfer_bytes ''PendingReceiverApproval'' 1) =
     (xfer_req ''PendingReceiverApproval'' (Fin 1), True) \<and>
   parse_balance (Txt (TFin (2097153 / 2097152))) = Some (Fin (2097153 / 2097152)) \<and>
   \<not> float_less (Fin (2097153 / 2097152)) (Fin 1) \<and>
   float_sub (Fin (2097153 / 2097152)) (Fin 1) = Fin (1 / 2097152) \<and>
   ApproveTransferByReceiver (ledger_xfer ''PendingReceiverApproval'' 1 (2097153 / 2097152))
       ''transfer_u1'' ''a1'' =
     (None,
      [(''token_1'', marshalToken (token_rec ''token_1'' ''a1'' False 11)),
       (''s1'', Txt (TFin 0)),
       (''transfer_u1'', xfer_bytes ''Completed'' 1)]) \<and>
   parse_balance (Txt (TFin 0)) = Some (Fin 0) \<and>
   Fin 0 \<noteq> float_sub (Fin (2097153 / 2097152)) (Fin 1)"
proof -
  have p: "parse_balance (Txt (TFin (2097153 / 2097152))) = Some (Fin (2097153 / 2097152))"
    by (simp add: parse_balance_def ParseFloat_def round_f64_B)
  have s: "float_sub (Fin (2097153 / 2097152)) (Fin 1) = Fin (1 / 2097152)"
    by (simp add: round_f64_D)
  have z: "parse_balance (Txt (TFin 0)) = Some (Fin 0)"
    by (simp add: parse_balance_def ParseFloat_def round_f64_def)
  have m: "marshalTransferRequest ((xfer_req ''PendingReceiverApproval'' (Fin 1))\<lparr>X_Status := ''Completed''\<rparr>)
      = Some (xfer_bytes ''Completed'' 1)"
    using marshal_xfer_1 [of "''Completed''"] by (simp add: xfer_req_def)
  have t: "unmarshalToken (marshalToken (token_rec ''token_1'' ''a1'' False 10)) =
      (token_rec ''token_1'' ''a1'' False 10, True)"
    by (rule unmarshal_marshalToken) (simp add: token_rec_def in_int64_def)
  have a: "ApproveTransferByReceiver (ledger_xfer ''PendingReceiverApproval'' 1 (2097153 / 2097152))
       ''transfer_u1'' ''a1'' =
     (None,
      [(''token_1'', marshalToken (token_rec ''token_1'' ''a1'' False 11)),
       (''s1'', Txt (TFin 0)),
       (''transfer_u1'', xfer_bytes ''Completed'' 1)])"
    apply (simp add: ApproveTransferByReceiver_def GetState_def ledger_xfer_def unmarshal_xfer_1 t p m
        PutStateOrNil_def PutState_def Let_def)
    apply (simp add: xfer_req_def token_rec_def round_f64_D Sprintf_f_D float_to_int_def trunc0_def
        in_int64_def wrap64_def)
    done
  show ?thesis using p s z a unmarshal_xfer_1 [of "''PendingReceiverApproval''"] by simp
qed

subsection \<open>Failures and writes\<close>




















subsection \<open>The combined view, and the token pool over a run\<close>

lemma clean_update:
  "no_token_transfer_id L \<Longrightarrow> \<not> has_key ''token_transfer_id'' v \<Longrightarrow>
   no_token_transfer_id (PutState L k v)"
  unfolding no_token_transfer_id_def PutState_def
  by (induction L) auto

lemma clean_delete:
  "no_token_transfer_id L \<Longrightarrow> no_token_transfer_id (AList.delete k L)"
  unfolding no_token_transfer_id_def
  by (induction L) auto

lemma clean_marshal:
  "\<not> has_key ''token_transfer_id'' (marshalParticipant p)"
  "\<not> has_key ''token_transfer_id'' (marshalToken t)"
  "\<not> has_key ''token_transfer_id'' (marshalTokenRequest tr)"
  "\<not> has_key ''token_transfer_id'' (marshalMintRequest m)"
  "\<not> has_key ''token_transfer_id'' (marshalCustomer cu)"
  "\<not> has_key ''token_transfer_id'' (marshalRegisterCustomerRequest rc)"
  "\<not> has_key ''token_transfer_id'' (Txt x)"
  by (simp_all add: marshalParticipant_def marshalToken_def marshalTokenRequest_def
      marshalMintRequest_def marshalCustomer_def marshalRegisterCustomerRequest_def)

lemma clean_marshalTransferRequest:
  "marshalTransferRequest r = Some b \<Longrightarrow> \<not> has_key ''token_transfer_id'' b"
  by (auto simp: marshalTransferRequest_def split: option.splits)

lemma clean_PutStateOrNil:
  "no_token_transfer_id L \<Longrightarrow> no_token_transfer_id (PutStateOrNil L k (marshalTransferRequest r))"
  by (cases "marshalTransferRequest r")
     (simp_all add: PutStateOrNil_def clean_delete clean_update clean_marshalTransferRequest)

lemma clean_fold:
  "no_token_transfer_id L \<Longrightarrow>
   no_token_transfer_id (fold (\<lambda>i L'. PutState L' (f i) (marshalToken (g i))) xs L)"
  by (induction xs arbitrary: L) (simp_all add: clean_update clean_marshal)

lemmas clean = clean_update clean_marshal clean_PutStateOrNil clean_marshalTransferRequest

lemma clean_InitLedger: "no_token_transfer_id L \<Longrightarrow> no_token_transfer_id (snd (InitLedger L))"
  by (simp add: InitLedger_def clean_fold)

lemma clean_SubmitRegistration:
  "no_token_transfer_id L \<Longrightarrow> no_token_transfer_id (snd (SubmitRegistration sha c L n pw co))"
  by (simp add: SubmitRegistration_def Let_def clean)

lemma clean_RequestTokenRequest:
  "no_token_transfer_id L \<Longrightarrow> no_token_transfer_id (snd (RequestTokenRequest L n a pw co))"
  by (simp add: RequestTokenRequest_def Let_def clean split: option.splits prod.splits)

lemma clean_ApproveTokenRequest:
  "no_token_transfer_id L \<Longrightarrow> no_token_transfer_id (snd (ApproveTokenRequest c L a))"
  by (simp add: ApproveTokenRequest_def Let_def clean split: option.splits prod.splits sum.splits)

lemma clean_RequestMintCoins:
  "no_token_transfer_id L \<Longrightarrow> no_token_transfer_id (snd (RequestMintCoins c L a pw amt))"
  by (simp add: RequestMintCoins_def Let_def clean split: option.splits prod.splits)

lemma clean_ApproveMintRequest:
  "no_token_transfer_id L \<Longrightarrow> no_token_transfer_id (snd (ApproveMintRequest c L rid))"
  by (simp add: ApproveMintRequest_def Let_def clean split: option.splits prod.splits)

lemma clean_RegisterCustomer:
  "no_token_transfer_id L \<Longrightarrow> no_token_transfer_id (snd (RegisterCustomer L a n pw tk))"
  by (simp add: RegisterCustomer_def Let_def clean split: option.splits prod.splits)

lemma clean_ApproveCustomerRegistration:
  "no_token_transfer_id L \<Longrightarrow> no_token_transfer_id (snd (ApproveCustomerRegistration L rid ow))"
  by (simp add: ApproveCustomerRegistration_def Let_def clean split: option.splits prod.splits)

lemma clean_CustomerRequestMint:
  "no_token_transfer_id L \<Longrightarrow> no_token_transfer_id (snd (CustomerRequestMint L a tk amt))"
  by (simp add: CustomerRequestMint_def Let_def clean split: option.splits prod.splits)

lemma clean_ApproveCustomerMint:
  "no_token_transfer_id L \<Longrightarrow> no_token_transfer_id (snd (ApproveCustomerMint L rid ow))"
  by (simp add: ApproveCustomerMint_def Let_def clean split: option.splits prod.splits)

lemma clean_CreateTransferRequest:
  "no_token_transfer_id L \<Longrightarrow> no_token_transfer_id (snd (CreateTransferRequest L s r st rt tk amt u))"
  by (simp add: CreateTransferRequest_def Let_def clean split: option.splits prod.splits)

lemma clean_ApproveTransferByOwner:
  "no_token_transfer_id L \<Longrightarrow> no_token_transfer_id (snd (ApproveTransferByOwner L rid ap))"
  by (simp add: ApproveTransferByOwner_def Let_def clean split: option.splits prod.splits)

lemma clean_ApproveTransferByReceiver:
  "no_token_transfer_id L \<Longrightarrow> no_token_transfer_id (snd (ApproveTransferByReceiver L rid ap))"
  by (simp add: ApproveTransferByReceiver_def Let_def clean split: option.splits prod.splits)

lemma clean_exec: "no_token_transfer_id L \<Longrightarrow> no_token_transfer_id (snd (exec sha c p L))"
proof (cases p)
  case (OpSubmitRegistration n pw co)
  assume "no_token_transfer_id L"
  from clean_SubmitRegistration [OF this, of sha c n pw co] OpSubmitRegistration
  show ?thesis by (auto split: prod.splits)
next
  case (OpCreateTransferRequest s r st rt tk amt u)
  assume "no_token_transfer_id L"
  from clean_CreateTransferRequest [OF this, of s r st rt tk amt u] OpCreateTransferRequest
  show ?thesis by (auto split: prod.splits)
qed (simp_all add: clean_InitLedger clean_RequestTokenRequest clean_ApproveTokenRequest
      clean_RequestMintCoins clean_ApproveMintRequest clean_RegisterCustomer
      clean_ApproveCustomerRegistration clean_CustomerRequestMint clean_ApproveCustomerMint
      clean_ApproveTransferByOwner clean_ApproveTransferByReceiver)

lemma reachable_clean: "reachable sha L \<Longrightarrow> no_token_transfer_id L"
  by (induction rule: reachable.induct) (simp_all add: no_token_transfer_id_def [of "[]"] clean_exec)

lemma field_Some_key: "field fs k = Some v \<Longrightarrow> k \<in> set (map fst fs)"
  unfolding field_def by (drule map_of_SomeD) force

lemma query_empty:
  "no_token_transfer_id L \<Longrightarrow> GetQueryResult L (FieldEq ''token_transfer_id'' x) = []"
proof -
  assume c: "no_token_transfer_id L"
  have "\<not> matches (FieldEq ''token_transfer_id'' x) d" if "d \<in> set (map snd L)" for d
  proof (cases d)
    case (Obj fs)
    from that c have "\<not> has_key ''token_transfer_id'' d"
      by (auto simp: no_token_transfer_id_def list_all_iff)
    with Obj show ?thesis using field_Some_key [of fs "''token_transfer_id''"] by auto
  next
    case (Txt t)
    then show ?thesis by simp
  qed
  then show ?thesis unfolding GetQueryResult_def by (simp add: filter_empty_conv)
qed

text \<open>
  Claim C9. In every state of the ledger that the operations can make of the empty store,
  and for every token id whose token's owner equals the supplied caller reference, the
  combined view returns no participant: the count is 0 and the lists are empty. Its query
  selects on the field \<open>token_transfer_id\<close>, which no record written by the chaincode has.
\<close>

theorem GetTokenParticipantsAndTransactions_no_participants:
  assumes "reachable sha L"
    and "GetState L tokenID = Some tb" "unmarshalToken tb = (t, True)"
    and "T_Owner t = callerTransferID"
  shows "GetTokenParticipantsAndTransactions L tokenID callerTransferID =
           Inr \<lparr>V_tokenID = tokenID, V_participantCount = 0, V_participants = [],
                V_participantTransfers = []\<rparr>"
  using assms(2-4) query_empty [OF reachable_clean [OF assms(1)]]
  by (simp add: GetTokenParticipantsAndTransactions_def)

lemma InitLedger_keys:
  "snd (InitLedger L) = fold (\<lambda>k L'. PutState L' k (init_token k)) token_keys L"
  by (simp add: InitLedger_def token_keys_def fold_map comp_def init_token_def)

lemma InitLedger_empty:
  "snd (InitLedger []) = map (\<lambda>k. (k, init_token k)) token_keys"
  unfolding InitLedger_keys token_keys_eq
  by (simp add: PutState_def)

lemma reachable_run_from:
  "reachable sha0 L \<Longrightarrow> list_all (\<lambda>cp. op_ok (snd cp)) steps \<Longrightarrow>
   reachable sha0 (fold (\<lambda>(c, p) L. snd (exec sha0 c p L)) steps L)"
proof (induction steps arbitrary: L)
  case Nil
  then show ?case by simp
next
  case (Cons x xs)
  obtain c p where x: "x = (c, p)" by (cases x)
  with Cons.prems have "reachable sha0 (snd (exec sha0 c p L))"
    by (auto intro: reachable_step)
  from Cons.IH [OF this] Cons.prems(2) x show ?case by simp
qed

lemma reachable_run: "list_all (\<lambda>cp. op_ok (snd cp)) steps \<Longrightarrow> reachable sha0 (run steps)"
  unfolding run_def by (rule reachable_run_from [OF reachable_empty])

lemma run_snoc: "run (steps @ [(c, p)]) = snd (exec sha0 c p (run steps))"
  by (simp add: run_def)

lemma tid_1: "tid 1 = ''token_1''" by code_simp

lemma upt_first: "[1..<Suc maxTokens] = 1 # [2..<Suc maxTokens]"
  by (simp add: maxTokens_def upt_conv_Cons)

lemma tid_Suc_0: "tid (Suc 0) = ''token_1''" using tid_1 by simp

lemma findAvailableToken_first:
  assumes "GetState L ''token_1'' = Some b" "unmarshalToken b = (t, True)" "T_Available t"
  shows "findAvailableToken L = Inr ''token_1''"
  unfolding findAvailableToken_def upt_first using assms by (simp add: tid_Suc_0)

lemma unmarshal_init_token:
  "unmarshalToken (init_token k) =
     (\<lparr>T_TokenID = k, T_Owner = [], T_Available = True, T_Minted = 0, T_TransferIDs = None\<rparr>, True)"
  unfolding init_token_def by (rule unmarshal_marshalToken) (simp add: in_int64_def)

lemma run_1: "run [(admin_ctx, OpInitLedger)] = tokens_from token_keys"
  by (simp add: run_def InitLedger_empty tokens_from_def)

lemma run_2:
  "run [(admin_ctx, OpInitLedger), (alice_ctx, OpSubmitRegistration ''Alice'' ''pw'' ''USA'')] =
     tokens_from token_keys @ [(''a1'', marshalParticipant alice)]"
  using run_snoc [of "[(admin_ctx, OpInitLedger)]" alice_ctx "OpSubmitRegistration ''Alice'' ''pw'' ''USA''"]
  unfolding run_1
  by (simp add: SubmitRegistration_def ParticipantExists_def sha0_def GetState_def PutState_def
      tokens_from_def token_keys_eq alice_def alice_ctx_def Let_def)

lemma run_3:
  "run [(admin_ctx, OpInitLedger), (alice_ctx, OpSubmitRegistration ''Alice'' ''pw'' ''USA''),
        (alice_ctx, OpRequestTokenRequest ''Alice'' ''a1'' ''pw'' ''USA'')] =
     tokens_from token_keys @
       [(''a1'', marshalParticipant alice),
        (''tokenrequest_a1'', marshalTokenRequest (pending_request ''a1''))]"
  using run_snoc [of "[(admin_ctx, OpInitLedger), (alice_ctx, OpSubmitRegistration ''Alice'' ''pw'' ''USA'')]"
      alice_ctx "OpRequestTokenRequest ''Alice'' ''a1'' ''pw'' ''USA''"]
  unfolding run_2
  apply (simp add: RequestTokenRequest_def GetState_def tokens_from_def token_keys_eq
      unmarshal_marshalParticipant Let_def)
  apply (simp add: alice_def PutState_def pending_request_def)
  done

lemma GetState_tokens_from:
  "k \<in> set ks \<Longrightarrow> GetState (tokens_from ks @ rest) k = Some (init_token k)"
  by (induction ks) (auto simp: GetState_def tokens_from_def)

lemma GetState_tokens_from_other:
  "k \<notin> set ks \<Longrightarrow> GetState (tokens_from ks @ rest) k = GetState rest k"
  by (induction ks) (auto simp: GetState_def tokens_from_def)

lemma all_available: "filter (available (tokens_from token_keys @ rest)) token_keys = token_keys"
  by (rule filter_True) (simp add: available_def GetState_tokens_from unmarshal_init_token)

lemma tokens_decode_init: "tokens_decode (tokens_from token_keys @ rest)"
  by (simp add: tokens_decode_def list_all_iff decodes_as_token_def GetState_tokens_from
      unmarshal_init_token)

lemma token_keys_Cons: "token_keys = ''token_1'' # tl token_keys"
  by (simp add: token_keys_eq)

lemma not_token_key:
  "''a1'' \<notin> set token_keys" "''b1'' \<notin> set token_keys"
  "''tokenrequest_a1'' \<notin> set token_keys" "''tokenrequest_b1'' \<notin> set token_keys"
  by (simp_all add: token_keys_eq)

lemma approve_on_fresh_pool:
  assumes req: "GetState rest (''tokenrequest_'' @ a) = Some (marshalTokenRequest (pending_request a))"
    and part: "GetState rest a = Some (marshalParticipant p)"
    and a: "a \<notin> set token_keys" "''tokenrequest_'' @ a \<notin> set token_keys"
  shows "ApproveTokenRequest admin_ctx (tokens_from token_keys @ rest) a =
     (None,
      PutState
        (PutState
           (PutState (tokens_from token_keys @ rest) (''tokenrequest_'' @ a)
              (marshalTokenRequest (approved_request a ''token_1'')))
           a (marshalParticipant (p\<lparr>P_TokenID := ''token_1'', P_Approved := True\<rparr>)))
        ''token_1'' (marshalToken (token_rec ''token_1'' a False 0)))"
proof -
  let ?L = "tokens_from token_keys @ rest"
  have h1: "GetMSPID admin_ctx = ''Org1MSP''" by (simp add: admin_ctx_def)
  have h2: "GetState ?L (''tokenrequest_'' @ a) = Some (marshalTokenRequest (pending_request a))"
    using req a(2) by (simp add: GetState_tokens_from_other)
  have h3: "TR_Status (fst (unmarshalTokenRequest (marshalTokenRequest (pending_request a)))) = ''PENDING''"
    by (simp add: unmarshal_marshalTokenRequest pending_request_def)
  have h4: "GetState ?L a = Some (marshalParticipant p)"
    using part a(1) by (simp add: GetState_tokens_from_other)
  have k: "''token_1'' \<in> set token_keys" by (simp add: token_keys_eq)
  have f: "filter (available ?L) token_keys = ''token_1'' # tl token_keys"
    unfolding all_available by (rule token_keys_Cons)
  show ?thesis
    unfolding ApproveTokenRequest_filter [OF h1 h2 h3 h4 tokens_decode_init] f list.case
    by (simp add: unmarshal_marshalTokenRequest GetState_tokens_from [OF k] unmarshal_init_token
        pending_request_def approved_request_def token_rec_def)
qed

lemma run_alice:
  "run steps_alice =
     (''token_1'', marshalToken (token_rec ''token_1'' ''a1'' False 0)) #
     tokens_from (tl token_keys) @
       [(''a1'', marshalParticipant (alice\<lparr>P_TokenID := ''token_1'', P_Approved := True\<rparr>)),
        (''tokenrequest_a1'', marshalTokenRequest (approved_request ''a1'' ''token_1''))]"
proof -
  let ?rest = "[(''a1'', marshalParticipant alice),
        (''tokenrequest_a1'', marshalTokenRequest (pending_request ''a1''))]"
  have "run steps_alice = snd (ApproveTokenRequest admin_ctx (tokens_from token_keys @ ?rest) ''a1'')"
    using run_snoc [of "[(admin_ctx, OpInitLedger), (alice_ctx, OpSubmitRegistration ''Alice'' ''pw'' ''USA''),
        (alice_ctx, OpRequestTokenRequest ''Alice'' ''a1'' ''pw'' ''USA'')]"
      admin_ctx "OpApproveTokenRequest ''a1''"]
    unfolding run_3 steps_alice_def by simp
  also have "\<dots> = snd (None :: error option,
      PutState
        (PutState
           (PutState (tokens_from token_keys @ ?rest) (''tokenrequest_'' @ ''a1'')
              (marshalTokenRequest (approved_request ''a1'' ''token_1'')))
           ''a1'' (marshalParticipant (alice\<lparr>P_TokenID := ''token_1'', P_Approved := True\<rparr>)))
        ''token_1'' (marshalToken (token_rec ''token_1'' ''a1'' False 0)))"
    by (subst approve_on_fresh_pool [where p = alice])
       (simp_all add: GetState_def not_token_key [simplified] token_keys_eq)
  also have "\<dots> = (''token_1'', marshalToken (token_rec ''token_1'' ''a1'' False 0)) #
     tokens_from (tl token_keys) @
       [(''a1'', marshalParticipant (alice\<lparr>P_TokenID := ''token_1'', P_Approved := True\<rparr>)),
        (''tokenrequest_a1'', marshalTokenRequest (approved_request ''a1'' ''token_1''))]"
    by (simp add: PutState_def tokens_from_def token_keys_eq)
  finally show ?thesis .
qed


lemma run_append: "run (xs @ ys) = fold (\<lambda>(c, p) L. snd (exec sha0 c p L)) ys (run xs)"
  by (simp add: run_def)






lemma steps_ok: "list_all (\<lambda>cp. op_ok (snd cp)) steps_alice" "list_all (\<lambda>cp. op_ok (snd cp)) steps_both"
  by (simp_all add: steps_alice_def steps_both_def)















text \<open>
  After alice was given token 1 the participant record of alice names the token, and the
  view of token 1 for its owner is still empty.
\<close>

theorem GetTokenParticipantsAndTransactions_no_participants_witness:
  "reachable sha0 (run steps_alice) \<and>
   GetState (run steps_alice) ''token_1'' = Some (marshalToken (token_rec ''token_1'' ''a1'' False 0)) \<and>
   unmarshalToken (marshalToken (token_rec ''token_1'' ''a1'' False 0)) =
     (token_rec ''token_1'' ''a1'' False 0, True) \<and>
   T_Owner (token_rec ''token_1'' ''a1'' False 0) = ''a1'' \<and>
   GetState (run steps_alice) ''a1'' =
     Some (marshalParticipant (alice\<lparr>P_TokenID := ''token_1'', P_Approved := True\<rparr>)) \<and>
   GetTokenParticipantsAndTransactions (run steps_alice) ''token_1'' ''a1'' =
     Inr \<lparr>V_tokenID = ''token_1'', V_participantCount = 0, V_participants = [],
          V_participantTransfers = []\<rparr>"
proof -
  have r: "reachable sha0 (run steps_alice)" by (rule reachable_run [OF steps_ok(1)])
  have g: "GetState (run steps_alice) ''token_1'' = Some (marshalToken (token_rec ''token_1'' ''a1'' False 0))"
    unfolding run_alice by (simp add: GetState_def)
  have u: "unmarshalToken (marshalToken (token_rec ''token_1'' ''a1'' False 0)) =
     (token_rec ''token_1'' ''a1'' False 0, True)"
    by (rule unmarshal_marshalToken) (simp add: token_rec_def in_int64_def)
  have o: "T_Owner (token_rec ''token_1'' ''a1'' False 0) = ''a1''" by (simp add: token_rec_def)
  have a: "GetState (run steps_alice) ''a1'' =
     Some (marshalParticipant (alice\<lparr>P_TokenID := ''token_1'', P_Approved := True\<rparr>))"
    unfolding run_alice by (simp add: GetState_def tokens_from_def token_keys_eq)
  from GetTokenParticipantsAndTransactions_no_participants [OF r g u o] r g u o a
  show ?thesis by blast
qed

end
